theory Spec2Isabelle
  imports Complex_Main "HOL-Library.Sublist"
begin

section \<open>Values of the language\<close>

text \<open>
  The library is JavaScript: \<^verbatim>\<open>src/dataFormat.js\<close> (a class of number and date formatters)
  and \<^verbatim>\<open>src/clone.js\<close> (a deep clone through \<^verbatim>\<open>JSON.stringify\<close>/\<^verbatim>\<open>JSON.parse\<close>).
  Both depend on the dynamic typing of their arguments, on exceptions and, for the option
  records and the clone, on object identity. The embedding therefore has a type of
  language values, a store of objects, and results that are either an error or a value.

  \<^bold>\<open>Numbers.\<close> A number is \<open>NaN\<close>, an infinity, or a finite decimal \<open>Fin m e\<close>
  standing for \<open>m * 10 ^ e\<close>. The formatters work on the decimal text that
  \<^verbatim>\<open>Number.prototype.toString\<close> prints, and a binary64 value prints as the shortest decimal
  that reads back as itself, so a finite number is identified with that decimal. What
  this leaves out is the rounding of binary64 arithmetic: \<open>value / divisor\<close>,
  \<open>Math.abs(value) * 100\<close> and \<open>Number(text)\<close> are exact here, there is no overflow to
  infinity and no negative zero (which prints as \<open>0\<close> and compares as \<open>0\<close> everywhere
  in this code). Several pairs \<open>(m, e)\<close> denote one number; every operation below
  depends on the denoted number only.
\<close>

datatype jsnum = NaN | PosInf | NegInf | Fin int int

type_synonym addr = nat

datatype jsval =
    VUndefined
  | VNull
  | VBool bool
  | VNum jsnum
  | VStr string
  | VSymbol nat
  | VBigInt int
  | VFun nat
  | VObj addr

text \<open>
  \<open>VFun f\<close> is a function value, identified by \<open>f\<close>: no function is ever called by
  this code, only compared by \<open>typeof\<close> and copied by reference. \<open>VObj a\<close> is a reference
  to the plain object or the array stored at address \<open>a\<close>.
\<close>

datatype jsobj = Obj "(string \<times> jsval) list" | Arr "jsval list"

type_synonym heap = "jsobj list"

datatype error = TypeError | RangeError | SyntaxError | Unmodelled

text \<open>
  \<open>Unmodelled\<close> is not an exception of the language: it marks the behaviours the
  embedding does not follow, such as a call of a function of the caller's, a named
  property written on an array or a function, and a reference to no object of the store.
\<close>

definition bind :: "error + 'a \<Rightarrow> ('a \<Rightarrow> error + 'b) \<Rightarrow> error + 'b" where
  "bind r f = (case r of Inl e \<Rightarrow> Inl e | Inr x \<Rightarrow> f x)"

subsection \<open>Arithmetic on numbers\<close>

definition zero :: jsnum where
  "zero = Fin 0 0"

text \<open>The \<open>length\<close> of a string, as a number.\<close>

definition js_length :: "string \<Rightarrow> jsnum" where
  "js_length s = Fin (int (length s)) 0"

text \<open>Two finite numbers brought to their smaller exponent.\<close>

definition align :: "int \<Rightarrow> int \<Rightarrow> int \<Rightarrow> int \<Rightarrow> int \<times> int" where
  "align m1 e1 m2 e2 =
     (let e = min e1 e2 in (m1 * 10 ^ nat (e1 - e), m2 * 10 ^ nat (e2 - e)))"

fun num_lt :: "jsnum \<Rightarrow> jsnum \<Rightarrow> bool" where
  "num_lt NaN y = False"
| "num_lt x NaN = False"
| "num_lt PosInf y = False"
| "num_lt NegInf NegInf = False"
| "num_lt NegInf y = True"
| "num_lt (Fin m e) PosInf = True"
| "num_lt (Fin m e) NegInf = False"
| "num_lt (Fin m1 e1) (Fin m2 e2) = (case align m1 e1 m2 e2 of (a, b) \<Rightarrow> a < b)"

fun num_is_zero :: "jsnum \<Rightarrow> bool" where
  "num_is_zero (Fin m e) = (m = 0)"
| "num_is_zero x = False"

fun num_isNaN :: "jsnum \<Rightarrow> bool" where
  "num_isNaN NaN = True"
| "num_isNaN x = False"

fun num_abs :: "jsnum \<Rightarrow> jsnum" where
  "num_abs NaN = NaN"
| "num_abs PosInf = PosInf"
| "num_abs NegInf = PosInf"
| "num_abs (Fin m e) = Fin \<bar>m\<bar> e"

fun num_neg :: "jsnum \<Rightarrow> jsnum" where
  "num_neg NaN = NaN"
| "num_neg PosInf = NegInf"
| "num_neg NegInf = PosInf"
| "num_neg (Fin m e) = Fin (- m) e"

fun num_add :: "jsnum \<Rightarrow> jsnum \<Rightarrow> jsnum" where
  "num_add NaN y = NaN"
| "num_add x NaN = NaN"
| "num_add PosInf NegInf = NaN"
| "num_add NegInf PosInf = NaN"
| "num_add PosInf y = PosInf"
| "num_add NegInf y = NegInf"
| "num_add (Fin m e) PosInf = PosInf"
| "num_add (Fin m e) NegInf = NegInf"
| "num_add (Fin m1 e1) (Fin m2 e2) =
     (case align m1 e1 m2 e2 of (a, b) \<Rightarrow> Fin (a + b) (min e1 e2))"

definition num_sub :: "jsnum \<Rightarrow> jsnum \<Rightarrow> jsnum" where
  "num_sub x y = num_add x (num_neg y)"

text \<open>
  The only products and quotients of the code are by the constants \<open>100\<close>, \<open>10000\<close>,
  \<open>100000000\<close> and \<open>1\<close>, all powers of ten, which shift the exponent.
\<close>

fun num_mul_pow10 :: "jsnum \<Rightarrow> nat \<Rightarrow> jsnum" where
  "num_mul_pow10 (Fin m e) k = Fin m (e + int k)"
| "num_mul_pow10 x k = x"

fun num_div_pow10 :: "jsnum \<Rightarrow> nat \<Rightarrow> jsnum" where
  "num_div_pow10 (Fin m e) k = Fin m (e - int k)"
| "num_div_pow10 x k = x"

text \<open>
  \<^verbatim>\<open>Math.round\<close>: the integer nearest to the argument, a tie going to the larger one,
  that is \<open>floor (x + 1/2)\<close>.
\<close>

fun math_round :: "jsnum \<Rightarrow> jsnum" where
  "math_round (Fin m e) =
     (if 0 \<le> e then Fin m e
      else Fin ((2 * m + 10 ^ nat (- e)) div (2 * 10 ^ nat (- e))) 0)"
| "math_round x = x"

text \<open>Whether a finite number is an integer, and its integer part (truncation).\<close>

definition fin_is_integer :: "int \<Rightarrow> int \<Rightarrow> bool" where
  "fin_is_integer m e = (0 \<le> e \<or> m mod 10 ^ nat (- e) = 0)"

definition fin_trunc :: "int \<Rightarrow> int \<Rightarrow> int" where
  "fin_trunc m e =
     (if 0 \<le> e then m * 10 ^ nat e else sgn m * (\<bar>m\<bar> div 10 ^ nat (- e)))"

subsection \<open>Strings\<close>

text \<open>
  A string is a list of characters. The two unit suffixes of \<open>largeNumberFormat\<close>, U+4EBF
  and U+4E07, are outside the 8-bit characters of HOL; they are written as their UTF-8
  bytes. No length or index is ever taken of a string that holds them.
\<close>

definition unit_yi :: string where
  "unit_yi = [char_of (228::nat), char_of (186::nat), char_of (191::nat)]"

definition unit_wan :: string where
  "unit_wan = [char_of (228::nat), char_of (184::nat), char_of (135::nat)]"

definition is_digit :: "char \<Rightarrow> bool" where
  "is_digit c = (c \<in> set ''0123456789'')"

definition digit_val :: "char \<Rightarrow> int" where
  "digit_val c = of_char c - 48"

definition digit_char :: "int \<Rightarrow> char" where
  "digit_char n = ''0123456789'' ! nat n"

text \<open>The decimal digits of a natural number, held as an \<open>int\<close>.\<close>

function digits_of :: "int \<Rightarrow> string" where
  "digits_of n =
     (if n < 10 then [digit_char n] else digits_of (n div 10) @ [digit_char (n mod 10)])"
  by pat_completeness auto
termination
  by (relation "measure nat") auto

declare digits_of.simps [simp del]

definition digits_val :: "string \<Rightarrow> int" where
  "digits_val ds = foldl (\<lambda>a c. 10 * a + digit_val c) 0 ds"

text \<open>\<^verbatim>\<open>s.split(c)\<close> for a one-character separator: the pieces between the separators.\<close>

fun split_on :: "char \<Rightarrow> string \<Rightarrow> string list" where
  "split_on c [] = [[]]"
| "split_on c (x # xs) =
     (if x = c then [] # split_on c xs
      else (case split_on c xs of p # ps \<Rightarrow> (x # p) # ps | [] \<Rightarrow> [[x]]))"

text \<open>
  \<^verbatim>\<open>s.slice(start, end)\<close>, \<^verbatim>\<open>s.slice(start)\<close>, \<^verbatim>\<open>s.substr(start, length)\<close> and
  \<^verbatim>\<open>s.substr(start)\<close>. An argument is first truncated to an integer (\<open>NaN\<close> counts
  as \<open>0\<close>); a negative index counts from the end, and every index is clamped to the
  string.
\<close>

fun clamp_index :: "nat \<Rightarrow> jsnum \<Rightarrow> nat" where
  "clamp_index len NaN = 0"
| "clamp_index len PosInf = len"
| "clamp_index len NegInf = 0"
| "clamp_index len (Fin m e) =
     (let i = fin_trunc m e
      in if i < 0 then nat (max (int len + i) 0) else min (nat i) len)"

fun clamp_count :: "nat \<Rightarrow> jsnum \<Rightarrow> nat" where
  "clamp_count len NaN = 0"
| "clamp_count len PosInf = len"
| "clamp_count len NegInf = 0"
| "clamp_count len (Fin m e) = min (nat (fin_trunc m e)) len"

definition js_slice :: "string \<Rightarrow> jsnum \<Rightarrow> jsnum option \<Rightarrow> string" where
  "js_slice s start end =
     (let len = length s;
          from = clamp_index len start;
          to = (case end of None \<Rightarrow> len | Some e \<Rightarrow> clamp_index len e)
      in take (to - from) (drop from s))"

definition js_substr :: "string \<Rightarrow> jsnum \<Rightarrow> jsnum option \<Rightarrow> string" where
  "js_substr s start count =
     (let len = length s;
          from = clamp_index len start
      in (case count of
            None \<Rightarrow> drop from s
          | Some c \<Rightarrow> take (clamp_count len c) (drop from s)))"

text \<open>
  \<^verbatim>\<open>s.replace(key, r)\<close> with a string \<open>key\<close>: the first occurrence of \<open>key\<close> in \<open>s\<close>,
  if there is one, is replaced by \<open>r\<close>. (A \<^verbatim>\<open>$\<close> in \<open>r\<close> would be read as a pattern;
  the replacements of this code are printed numbers and hold none.)
\<close>

fun js_replace :: "string \<Rightarrow> string \<Rightarrow> string \<Rightarrow> string" where
  "js_replace [] key r = (if key = [] then r else [])"
| "js_replace (c # cs) key r =
     (if prefix key (c # cs) then r @ drop (length key) (c # cs)
      else c # js_replace cs key r)"

text \<open>
  \<^verbatim>\<open>new Array(n).join('0')\<close>: \<open>n\<close> must be an integer from \<open>0\<close> to \<open>2^32 - 1\<close>, else the
  constructor throws a RangeError; \<open>n\<close> empty slots joined give \<open>n - 1\<close> separators.
\<close>

fun zeros :: "jsnum \<Rightarrow> error + string" where
  "zeros (Fin m e) =
     (if fin_is_integer m e \<and> 0 \<le> fin_trunc m e \<and> fin_trunc m e < 2 ^ 32
      then Inr (replicate (nat (fin_trunc m e) - 1) CHR ''0'')
      else Inl RangeError)"
| "zeros x = Inl RangeError"

subsection \<open>Numbers to text and back\<close>

text \<open>
  \<^verbatim>\<open>Number.prototype.toString\<close> in radix 10. With \<open>s\<close> the digits of the number without
  trailing zeros, \<open>k\<close> their count and \<open>n\<close> the position of the decimal point (the number
  is \<open>0.s * 10 ^ n\<close>): plain digits when \<open>k \<le> n \<le> 21\<close>, a point inside the digits when
  \<open>0 < n \<le> 21\<close>, \<open>0.000s\<close> when \<open>-6 < n \<le> 0\<close>, and exponent notation otherwise.
\<close>

definition strip_zeros :: "string \<Rightarrow> string" where
  "strip_zeros ds = rev (dropWhile (\<lambda>c. c = CHR ''0'') (rev ds))"

definition exponent_text :: "int \<Rightarrow> string" where
  "exponent_text x = (if 0 \<le> x then ''+'' else ''-'') @ digits_of \<bar>x\<bar>"

definition pos_toString :: "int \<Rightarrow> int \<Rightarrow> string" where
  "pos_toString a e =
     (let ds = digits_of a;
          s = strip_zeros ds;
          k = int (length s);
          n = int (length ds) + e
      in if k \<le> n \<and> n \<le> 21 then s @ replicate (nat (n - k)) CHR ''0''
         else if 0 < n \<and> n \<le> 21 then take (nat n) s @ ''.'' @ drop (nat n) s
         else if - 6 < n \<and> n \<le> 0 then ''0.'' @ replicate (nat (- n)) CHR ''0'' @ s
         else if k = 1 then s @ ''e'' @ exponent_text (n - 1)
         else take 1 s @ ''.'' @ drop 1 s @ ''e'' @ exponent_text (n - 1))"

fun num_toString :: "jsnum \<Rightarrow> string" where
  "num_toString NaN = ''NaN''"
| "num_toString PosInf = ''Infinity''"
| "num_toString NegInf = ''-Infinity''"
| "num_toString (Fin m e) =
     (if m = 0 then ''0''
      else if m < 0 then ''-'' @ pos_toString (- m) e
      else pos_toString m e)"

text \<open>
  \<^verbatim>\<open>Number(text)\<close>: the empty string is \<open>0\<close>; otherwise an optional sign, then
  \<^verbatim>\<open>Infinity\<close> or digits with an optional point and fraction digits (at least one digit
  on one side of the point) and an optional exponent \<^verbatim>\<open>e\<close>, sign, digits; anything
  else is \<open>NaN\<close>. White space around the literal and the \<^verbatim>\<open>0x\<close>, \<^verbatim>\<open>0o\<close>, \<^verbatim>\<open>0b\<close>
  literals are left out: the texts this code passes to \<^verbatim>\<open>Number\<close> are made of what
  \<open>num_toString\<close> prints, and hold neither. (A string of the caller's that holds them,
  given as a value or as an option, reads as \<open>NaN\<close> here.)
\<close>

definition parse_exponent :: "string \<Rightarrow> int option" where
  "parse_exponent r =
     (case r of
        [] \<Rightarrow> Some 0
      | c # r1 \<Rightarrow>
          if c = CHR ''e'' \<or> c = CHR ''E'' then
            (let (neg, r2) =
                   (case r1 of
                      [] \<Rightarrow> (False, [])
                    | d # r3 \<Rightarrow>
                        if d = CHR ''-'' then (True, r3)
                        else if d = CHR ''+'' then (False, r3) else (False, r1))
             in if r2 \<noteq> [] \<and> dropWhile is_digit r2 = []
                then Some (if neg then - digits_val r2 else digits_val r2)
                else None)
          else None)"

definition parse_unsigned :: "string \<Rightarrow> (int \<times> int) option" where
  "parse_unsigned r =
     (let ip = takeWhile is_digit r;
          r1 = dropWhile is_digit r;
          (fp, r2) =
            (case r1 of
               [] \<Rightarrow> ([], [])
             | c # r3 \<Rightarrow>
                 if c = CHR ''.'' then (takeWhile is_digit r3, dropWhile is_digit r3)
                 else ([], r1))
      in if ip = [] \<and> fp = [] then None
         else (case parse_exponent r2 of
                 None \<Rightarrow> None
               | Some x \<Rightarrow> Some (digits_val (ip @ fp), x - int (length fp))))"

definition string_to_number :: "string \<Rightarrow> jsnum" where
  "string_to_number s =
     (if s = [] then zero
      else
        (let (neg, r) =
               (case s of
                  [] \<Rightarrow> (False, [])
                | c # r1 \<Rightarrow>
                    if c = CHR ''-'' then (True, r1)
                    else if c = CHR ''+'' then (False, r1) else (False, s))
         in if r = ''Infinity'' then (if neg then NegInf else PosInf)
            else (case parse_unsigned r of
                    None \<Rightarrow> NaN
                  | Some (m, e) \<Rightarrow> Fin (if neg then - m else m) e)))"

section \<open>Coercions, the store and the host\<close>

text \<open>
  What the code takes from its host and cannot be read off the source: the conversion
  of an object or a function to a number (it runs the object's own \<^verbatim>\<open>valueOf\<close> and
  \<^verbatim>\<open>toString\<close>, which may throw), the locale's \<^verbatim>\<open>toLocaleString\<close>, and the calendar
  fields of a time stamp in the local time zone. They are parameters of the model.
\<close>

record date_fields =
  fullYear :: jsnum
  month :: jsnum
  date :: jsnum
  hours :: jsnum
  minutes :: jsnum
  seconds :: jsnum

record host =
  objToNumber :: "jsval \<Rightarrow> error + jsnum"
  toLocaleString :: "jsnum \<Rightarrow> string"
  localTime :: "jsnum \<Rightarrow> date_fields"

fun typeof :: "jsval \<Rightarrow> string" where
  "typeof VUndefined = ''undefined''"
| "typeof VNull = ''object''"
| "typeof (VBool b) = ''boolean''"
| "typeof (VNum n) = ''number''"
| "typeof (VStr s) = ''string''"
| "typeof (VSymbol i) = ''symbol''"
| "typeof (VBigInt i) = ''bigint''"
| "typeof (VFun f) = ''function''"
| "typeof (VObj a) = ''object''"

text \<open>
  \<open>ToNumber\<close>, which \<^verbatim>\<open>Math.abs\<close>, \<^verbatim>\<open>isNaN\<close> and the comparisons and subtractions
  with a number apply to their argument. It throws a TypeError on a symbol and on a
  BigInt.
\<close>

fun toNumber :: "host \<Rightarrow> jsval \<Rightarrow> error + jsnum" where
  "toNumber host VUndefined = Inr NaN"
| "toNumber host VNull = Inr zero"
| "toNumber host (VBool b) = Inr (if b then Fin 1 0 else zero)"
| "toNumber host (VNum n) = Inr n"
| "toNumber host (VStr s) = Inr (string_to_number s)"
| "toNumber host (VSymbol i) = Inl TypeError"
| "toNumber host (VBigInt i) = Inl TypeError"
| "toNumber host (VFun f) = objToNumber host (VFun f)"
| "toNumber host (VObj a) = objToNumber host (VObj a)"

fun toBoolean :: "jsval \<Rightarrow> bool" where
  "toBoolean VUndefined = False"
| "toBoolean VNull = False"
| "toBoolean (VBool b) = b"
| "toBoolean (VNum n) = (\<not> num_isNaN n \<and> \<not> num_is_zero n)"
| "toBoolean (VStr s) = (s \<noteq> [])"
| "toBoolean (VSymbol i) = True"
| "toBoolean (VBigInt i) = (i \<noteq> 0)"
| "toBoolean (VFun f) = True"
| "toBoolean (VObj a) = True"

text \<open>A parameter's default value applies when the argument is \<open>undefined\<close>.\<close>

definition default_arg :: "jsval \<Rightarrow> jsval \<Rightarrow> jsval" where
  "default_arg v d = (if v = VUndefined then d else v)"

text \<open>
  The store is the list of the objects allocated so far; an address is a position in it.
\<close>

definition lookup :: "heap \<Rightarrow> addr \<Rightarrow> jsobj option" where
  "lookup h a = (if a < length h then Some (h ! a) else None)"

definition alloc :: "heap \<Rightarrow> jsobj \<Rightarrow> jsval \<times> heap" where
  "alloc h ob = (VObj (length h), h @ [ob])"

fun upd :: "(string \<times> jsval) list \<Rightarrow> string \<Rightarrow> jsval \<Rightarrow> (string \<times> jsval) list" where
  "upd [] k v = [(k, v)]"
| "upd (p # ps) k v = (if fst p = k then (k, v) # ps else p # upd ps k v)"

definition prop_of :: "(string \<times> jsval) list \<Rightarrow> string \<Rightarrow> jsval" where
  "prop_of ps k = (case map_of ps k of None \<Rightarrow> VUndefined | Some v \<Rightarrow> v)"

text \<open>
  \<open>o.name\<close> for the names the formatters read (\<open>small\<close>, \<open>large\<close>, \<open>decimal\<close> and the
  flags; none is an index, \<open>length\<close> or a name of a built-in prototype that \<open>o\<close> can have
  here): a TypeError on \<open>undefined\<close> and \<open>null\<close>, the own property of a plain object,
  and \<open>undefined\<close> where there is none.
\<close>

fun get_prop :: "heap \<Rightarrow> jsval \<Rightarrow> string \<Rightarrow> error + jsval" where
  "get_prop h VUndefined k = Inl TypeError"
| "get_prop h VNull k = Inl TypeError"
| "get_prop h (VObj a) k =
     (case lookup h a of
        Some (Obj ps) \<Rightarrow> Inr (prop_of ps k)
      | Some (Arr xs) \<Rightarrow> Inr VUndefined
      | None \<Rightarrow> Inl Unmodelled)"
| "get_prop h v k = Inr VUndefined"

text \<open>
  \<open>o.name = v\<close> in strict code (a class body is strict): a TypeError when \<open>o\<close> is not an
  object. Named properties of arrays and functions are not part of the store.
\<close>

fun set_prop :: "heap \<Rightarrow> jsval \<Rightarrow> string \<Rightarrow> jsval \<Rightarrow> error + heap" where
  "set_prop h (VObj a) k v =
     (case lookup h a of
        Some (Obj ps) \<Rightarrow> Inr (h[a := Obj (upd ps k v)])
      | Some (Arr xs) \<Rightarrow> Inl Unmodelled
      | None \<Rightarrow> Inl Unmodelled)"
| "set_prop h (VFun f) k v = Inl Unmodelled"
| "set_prop h w k v = Inl TypeError"

section \<open>The formatters of dataFormat.js\<close>

subsection \<open>retainDecimal\<close>

text \<open>
  \<^verbatim>\<open>retainDecimal(value, decimal = 2, isRemoveExtraZero = true)\<close>, lines 144 to 179.
  \<open>retainDecimal_num\<close> is the body after the \<open>typeof\<close> guard, on the number \<open>x\<close>; it
  returns a string on every path. \<open>decimal\<close> may be any value: the guard of line 149
  and every later use but \<open>decimal === 0\<close> convert it to a number.
\<close>

definition strict_zero :: "jsval \<Rightarrow> bool" where
  "strict_zero v = (case v of VNum n \<Rightarrow> num_is_zero n | _ \<Rightarrow> False)"

text \<open>Lines 161 to 163: the fraction digits are filled with zeros up to \<open>decimal\<close>.\<close>

definition pad_decimals :: "string \<Rightarrow> jsnum \<Rightarrow> error + string" where
  "pad_decimals decimalPart d =
     (if num_lt (js_length decimalPart) d
      then bind (zeros (num_add (num_sub d (js_length decimalPart)) (Fin 1 0)))
             (\<lambda>z. Inr (decimalPart @ z))
      else Inr decimalPart)"

text \<open>Lines 168 to 172: the point is put back, \<open>decimal\<close> places from the right.\<close>

definition insert_point :: "string \<Rightarrow> jsnum \<Rightarrow> error + string" where
  "insert_point value d =
     (if num_lt d (js_length value)
      then Inr (js_slice value zero (Some (num_neg d)) @ ''.'' @ js_slice value (num_neg d) None)
      else bind (zeros (num_add (num_sub d (js_length value)) (Fin 1 0)))
             (\<lambda>z. Inr (''0.'' @ z @ value)))"

definition retainDecimal_digits :: "jsnum \<Rightarrow> jsnum \<Rightarrow> bool \<Rightarrow> error + string" where
  "retainDecimal_digits x d isRemoveExtraZero =
     (let values = split_on CHR ''.'' (num_toString x);
          integerPart = hd values;
          decimalPart0 = (case tl values of [] \<Rightarrow> [] | p # ps \<Rightarrow> p)
      in bind (pad_decimals decimalPart0 d)
           (\<lambda>decimalPart.
              let newValue =
                    math_round (string_to_number
                      (integerPart @ js_substr decimalPart zero (Some d) @ ''.'' @
                       js_substr decimalPart d None))
              in bind (insert_point (num_toString newValue) d)
                   (\<lambda>value.
                      Inr (if isRemoveExtraZero then num_toString (string_to_number value)
                           else value))))"

definition retainDecimal_num :: "host \<Rightarrow> jsnum \<Rightarrow> jsval \<Rightarrow> jsval \<Rightarrow> error + string" where
  "retainDecimal_num host x decimal0 isRemoveExtraZero0 =
     (let decimal1 = default_arg decimal0 (VNum (Fin 2 0));
          isRemoveExtraZero = default_arg isRemoveExtraZero0 (VBool True)
      in bind (toNumber host decimal1)
           (\<lambda>d1.
              let (decimal, d) =
                    (if num_isNaN d1 \<or> num_lt d1 zero then (VNum (Fin 2 0), Fin 2 0)
                     else (decimal1, d1))
              in if strict_zero decimal then Inr (num_toString (math_round x))
                 else retainDecimal_digits x d (toBoolean isRemoveExtraZero)))"

definition retainDecimal :: "host \<Rightarrow> jsval \<Rightarrow> jsval \<Rightarrow> jsval \<Rightarrow> error + jsval" where
  "retainDecimal host value decimal isRemoveExtraZero =
     (case value of
        VNum x \<Rightarrow> bind (retainDecimal_num host x decimal isRemoveExtraZero) (\<lambda>s. Inr (VStr s))
      | _ \<Rightarrow> Inr value)"

subsection \<open>smallNumberFormat\<close>

text \<open>
  Lines 63 to 80. The default of \<open>option\<close> is a fresh object. The write of line 71
  is made on the object the caller passed.
\<close>

definition small_default :: jsobj where
  "small_default =
     Obj [(''decimal'', VNum (Fin 8 0)), (''isRemoveExtraZero'', VBool True),
          (''isFillZeroInFront'', VBool False)]"

definition smallNumberFormat :: "host \<Rightarrow> heap \<Rightarrow> jsval \<Rightarrow> jsval \<Rightarrow> error + (jsval \<times> heap)" where
  "smallNumberFormat host h0 value option0 =
     (let (option, h1) =
            (if option0 = VUndefined then alloc h0 small_default else (option0, h0))
      in case value of
           VNum x \<Rightarrow>
             bind (if toBoolean option then
                     bind (get_prop h1 option ''decimal'')
                       (\<lambda>dec. bind (toNumber host dec)
                          (\<lambda>d. if num_isNaN d \<or> num_lt d zero
                                then set_prop h1 option ''decimal'' (VNum (Fin 8 0))
                                else Inr h1))
                   else Inr h1)
               (\<lambda>h2.
                  bind (get_prop h2 option ''decimal'')
                    (\<lambda>decimal. bind (get_prop h2 option ''isRemoveExtraZero'')
                       (\<lambda>isRemoveExtraZero.
                          bind (retainDecimal_num host x decimal isRemoveExtraZero)
                            (\<lambda>formatValue. bind (get_prop h2 option ''isFillZeroInFront'')
                               (\<lambda>isFillZeroInFront.
                                  Inr (VStr (if toBoolean isFillZeroInFront \<and>
                                                 num_lt (num_abs x) (Fin 10 0)
                                             then ''0'' @ formatValue else formatValue),
                                       h2))))))
         | _ \<Rightarrow> Inr (value, h1))"

subsection \<open>largeNumberFormat\<close>

text \<open>
  Lines 92 to 135. The divisor is \<open>10 ^ k\<close> with \<open>k\<close> one of \<open>8\<close>, \<open>4\<close> and \<open>0\<close>. The
  record \<^verbatim>\<open>{ value, unit }\<close> that the function returns when \<open>isSplitValueAndUnit\<close> is set
  is fresh and nothing else refers to it: it is returned by value, as \<open>Split\<close>.
\<close>

datatype formatted = Plain jsval | Split string string

definition large_default :: jsobj where
  "large_default =
     Obj [(''decimal'', VNum (Fin 2 0)), (''isRemoveExtraZero'', VBool True),
          (''isSplitValueAndUnit'', VBool False), (''isAttachThousandSymbol'', VBool False)]"

definition select_unit :: "jsnum \<Rightarrow> string \<times> nat" where
  "select_unit absValue =
     (let (unit1, k1) =
            (if num_lt absValue (Fin 100000000 0) then (unit_wan, 8 - 4) else (unit_yi, 8))
      in if num_lt absValue (Fin (10 ^ k1) 0) then ([], 0) else (unit1, k1))"

definition attachThousandSymbol :: "host \<Rightarrow> string \<Rightarrow> string" where
  "attachThousandSymbol host value =
     (let values = split_on CHR ''.'' value;
          integerPart = hd values;
          decimalPart = (case tl values of [] \<Rightarrow> [] | p # ps \<Rightarrow> if p = [] then [] else ''.'' @ p)
      in toLocaleString host (string_to_number integerPart) @ decimalPart)"

definition largeNumberFormat :: "host \<Rightarrow> heap \<Rightarrow> jsval \<Rightarrow> jsval \<Rightarrow> error + (formatted \<times> heap)" where
  "largeNumberFormat host h0 value option0 =
     (let (option, h1) =
            (if option0 = VUndefined then alloc h0 large_default else (option0, h0))
      in case value of
           VNum x \<Rightarrow>
             (let (unit, k) = select_unit (num_abs x);
                  value1 = num_div_pow10 x k
              in bind (get_prop h1 option ''decimal'')
                   (\<lambda>decimal. bind (get_prop h1 option ''isRemoveExtraZero'')
                      (\<lambda>isRemoveExtraZero.
                         bind (retainDecimal_num host value1 decimal isRemoveExtraZero)
                           (\<lambda>value2. bind (get_prop h1 option ''isAttachThousandSymbol'')
                              (\<lambda>isAttachThousandSymbol.
                                 let value3 = (if toBoolean isAttachThousandSymbol
                                               then attachThousandSymbol host value2 else value2)
                                 in bind (get_prop h1 option ''isSplitValueAndUnit'')
                                      (\<lambda>isSplitValueAndUnit.
                                         Inr (if toBoolean isSplitValueAndUnit
                                              then Split value3 unit
                                              else Plain (VStr (value3 @ unit)), h1)))))))
         | _ \<Rightarrow> Inr (Plain value, h1))"

subsection \<open>numberFormat\<close>

text \<open>
  Lines 26 to 54. The three object literals of the \<open>number\<close> case and the \<^verbatim>\<open>{}\<close> of
  the default case and of \<^verbatim>\<open>formatOption.small || {}\<close> are allocated in the store.
\<close>

definition expand_option :: "heap \<Rightarrow> jsval \<Rightarrow> jsval \<times> heap" where
  "expand_option h0 formatOption =
     (if typeof formatOption = ''number'' then
        (let (small, h1) =
               alloc h0 (Obj [(''decimal'', formatOption), (''isRemoveExtraZero'', VBool True),
                              (''isFillZeroInFront'', VBool False)]);
             (large, h2) =
               alloc h1 (Obj [(''decimal'', formatOption), (''isRemoveExtraZero'', VBool True)])
         in alloc h2 (Obj [(''small'', small), (''large'', large)]))
      else if typeof formatOption = ''object'' then (formatOption, h0)
      else alloc h0 (Obj []))"

definition or_empty :: "heap \<Rightarrow> jsval \<Rightarrow> jsval \<times> heap" where
  "or_empty h v = (if toBoolean v then (v, h) else alloc h (Obj []))"

definition numberFormat :: "host \<Rightarrow> heap \<Rightarrow> jsval \<Rightarrow> jsval \<Rightarrow> error + (formatted \<times> heap)" where
  "numberFormat host h0 value formatOption0 =
     (let (formatOption, h1) = expand_option h0 formatOption0
      in bind (toNumber host value)
           (\<lambda>n. let absValue = num_abs n
                 in if num_lt absValue (Fin 10 0) then
                      bind (get_prop h1 formatOption ''small'')
                        (\<lambda>small. let (option, h2) = or_empty h1 small
                                  in bind (smallNumberFormat host h2 value option)
                                       (\<lambda>(r, h3). Inr (Plain r, h3)))
                    else
                      bind (get_prop h1 formatOption ''large'')
                        (\<lambda>large. let (option, h2) = or_empty h1 large
                                  in largeNumberFormat host h2 value option)))"

subsection \<open>percentFormat\<close>

text \<open>Lines 187 to 205.\<close>

definition percentFormat :: "host \<Rightarrow> jsval \<Rightarrow> jsval \<Rightarrow> error + jsval" where
  "percentFormat host value isAttachSymbol0 =
     (let isAttachSymbol = default_arg isAttachSymbol0 (VBool True)
      in case value of
           VNum x \<Rightarrow>
             (let symbol =
                    (if toBoolean isAttachSymbol \<and> \<not> num_is_zero x
                     then (if num_lt zero x then ''+'' else ''-'') else []);
                  value1 = num_mul_pow10 (num_abs x) 2
              in bind (retainDecimal_num host value1 (VNum (Fin 2 0)) VUndefined)
                   (\<lambda>value2. Inr (VStr (symbol @ value2 @ ''%''))))
         | _ \<Rightarrow> Inr value)"

subsection \<open>datetimeFormat\<close>

text \<open>
  Lines 213 to 240. The object \<open>datetime\<close> is local to the call: it is a list of
  properties. Each turn of the first \<open>forEach\<close> allocates its option object.
\<close>

fun prim_toString :: "jsval \<Rightarrow> string" where
  "prim_toString (VNum n) = num_toString n"
| "prim_toString (VStr s) = s"
| "prim_toString VNull = ''null''"
| "prim_toString (VBool b) = (if b then ''true'' else ''false'')"
| "prim_toString v = ''undefined''"

fun two_digits ::
  "host \<Rightarrow> heap \<Rightarrow> (string \<times> jsval) list \<Rightarrow> string list \<Rightarrow>
   error + ((string \<times> jsval) list \<times> heap)" where
  "two_digits host h datetime [] = Inr (datetime, h)"
| "two_digits host h datetime (key # keys) =
     (let time = prop_of datetime (js_slice key (Fin 1 0) None);
          (option, h1) = alloc h (Obj [(''decimal'', VNum zero), (''isFillZeroInFront'', VBool True)])
      in bind (smallNumberFormat host h1 time option)
           (\<lambda>(r, h2). two_digits host h2 (upd datetime key r) keys))"

definition tokens :: "string list" where
  "tokens = [''yyyy'', ''MM'', ''dd'', ''hh'', ''mm'', ''ss'', ''yy'', ''M'', ''d'', ''h'', ''m'', ''s'']"

definition substitute :: "(string \<times> jsval) list \<Rightarrow> string \<Rightarrow> string list \<Rightarrow> string" where
  "substitute datetime express keys =
     foldl (\<lambda>formatValue key. js_replace formatValue key (prim_toString (prop_of datetime key)))
       express keys"

definition datetimeFormat :: "host \<Rightarrow> heap \<Rightarrow> jsval \<Rightarrow> jsval \<Rightarrow> error + (jsval \<times> heap)" where
  "datetimeFormat host h value express0 =
     (let express = default_arg express0 (VStr ''yyyyMMdd hh:mm:ss'')
      in case value of
           VNum x \<Rightarrow>
             (let date = localTime host x;
                  datetime0 =
                    [(''yyyy'', VNum (fullYear date)),
                     (''M'', VNum (num_add (month date) (Fin 1 0))),
                     (''d'', VNum (date_fields.date date)),
                     (''h'', VNum (hours date)),
                     (''m'', VNum (minutes date)),
                     (''s'', VNum (seconds date))];
                  datetime1 =
                    upd datetime0 ''yy''
                      (VStr (js_substr (num_toString (fullYear date)) (Fin 2 0) None))
              in bind (two_digits host h datetime1 [''MM'', ''dd'', ''hh'', ''mm'', ''ss''])
                   (\<lambda>(datetime, h1).
                      case express of
                        VStr e \<Rightarrow> Inr (VStr (substitute datetime e tokens), h1)
                      | _ \<Rightarrow> Inl TypeError))
         | _ \<Rightarrow> Inr (value, h))"

section \<open>The deep clone of clone.js\<close>

subsection \<open>JSON.stringify and JSON.parse\<close>

text \<open>
  The text that \<^verbatim>\<open>JSON.stringify\<close> writes and \<^verbatim>\<open>JSON.parse\<close> reads is kept as the tree
  it denotes; a number is kept as its text. \<^verbatim>\<open>JSON.stringify\<close> gives \<open>undefined\<close> (here
  \<open>None\<close>) for \<open>undefined\<close>, a function and a symbol; inside an object such a property
  is left out, inside an array it becomes \<open>null\<close>. \<open>NaN\<close> and the infinities become
  \<open>null\<close>, a BigInt is a TypeError, and so is a structure that contains itself. The
  first argument bounds the nesting of objects: \<open>clone\<close> starts it at the number of
  objects in the store, which a path without a cycle cannot exceed. An own property
  \<open>toJSON\<close> that is a function would be called; that is not followed.
\<close>

datatype json =
    JNull
  | JBool bool
  | JNum string
  | JStr string
  | JArr "json list"
  | JObj "(string \<times> json) list"

text \<open>Running a step over a list, stopping at the first error.\<close>

fun map_err :: "('a \<Rightarrow> error + 'b) \<Rightarrow> 'a list \<Rightarrow> error + 'b list" where
  "map_err f [] = Inr []"
| "map_err f (x # xs) = bind (f x) (\<lambda>y. bind (map_err f xs) (\<lambda>ys. Inr (y # ys)))"

fun for_each :: "'a list \<Rightarrow> heap \<Rightarrow> ('a \<Rightarrow> heap \<Rightarrow> error + heap) \<Rightarrow> error + heap" where
  "for_each [] h f = Inr h"
| "for_each (x # xs) h f = bind (f x h) (\<lambda>h1. for_each xs h1 f)"

definition stringify_primitive :: "jsval \<Rightarrow> error + json option" where
  "stringify_primitive v =
     (case v of
        VNull \<Rightarrow> Inr (Some JNull)
      | VBool b \<Rightarrow> Inr (Some (JBool b))
      | VNum x \<Rightarrow> Inr (Some (case x of Fin m e \<Rightarrow> JNum (num_toString x) | _ \<Rightarrow> JNull))
      | VStr s \<Rightarrow> Inr (Some (JStr s))
      | VBigInt i \<Rightarrow> Inl TypeError
      | _ \<Rightarrow> Inr None)"

definition element_json :: "json option \<Rightarrow> json" where
  "element_json j = (case j of None \<Rightarrow> JNull | Some j' \<Rightarrow> j')"

definition property_json :: "string \<times> json option \<Rightarrow> (string \<times> json) option" where
  "property_json p = (case snd p of None \<Rightarrow> None | Some j \<Rightarrow> Some (fst p, j))"

primrec stringify :: "nat \<Rightarrow> heap \<Rightarrow> jsval \<Rightarrow> error + json option" where
  "stringify 0 h v = (case v of VObj a \<Rightarrow> Inl TypeError | _ \<Rightarrow> stringify_primitive v)"
| "stringify (Suc n) h v =
     (case v of
        VObj a \<Rightarrow>
          (case lookup h a of
             None \<Rightarrow> Inl Unmodelled
           | Some (Arr xs) \<Rightarrow>
               bind (map_err (stringify n h) xs)
                 (\<lambda>js. Inr (Some (JArr (map element_json js))))
           | Some (Obj ps) \<Rightarrow>
               if typeof (prop_of ps ''toJSON'') = ''function'' then Inl Unmodelled
               else bind (map_err (\<lambda>p. bind (stringify n h (snd p)) (\<lambda>j. Inr (fst p, j))) ps)
                      (\<lambda>js. Inr (Some (JObj (List.map_filter property_json js)))))
      | _ \<Rightarrow> stringify_primitive v)"

text \<open>\<^verbatim>\<open>JSON.parse\<close> builds fresh objects: every array and object of the tree is allocated.\<close>

fun in_sequence :: "(heap \<Rightarrow> 'a \<times> heap) list \<Rightarrow> heap \<Rightarrow> 'a list \<times> heap" where
  "in_sequence [] h = ([], h)"
| "in_sequence (f # fs) h =
     (case f h of (x, h1) \<Rightarrow> case in_sequence fs h1 of (xs, h2) \<Rightarrow> (x # xs, h2))"

definition named :: "string \<times> (heap \<Rightarrow> jsval \<times> heap) \<Rightarrow> heap \<Rightarrow> (string \<times> jsval) \<times> heap" where
  "named p h = (case snd p h of (v, h1) \<Rightarrow> ((fst p, v), h1))"

primrec parse :: "json \<Rightarrow> heap \<Rightarrow> jsval \<times> heap" where
  "parse JNull = (\<lambda>h. (VNull, h))"
| "parse (JBool b) = (\<lambda>h. (VBool b, h))"
| "parse (JNum t) = (\<lambda>h. (VNum (string_to_number t), h))"
| "parse (JStr s) = (\<lambda>h. (VStr s, h))"
| "parse (JArr js) =
     (\<lambda>h. case in_sequence (map parse js) h of (vs, h1) \<Rightarrow> alloc h1 (Arr vs))"
| "parse (JObj ps) =
     (\<lambda>h. case in_sequence (map named (map (map_prod id parse) ps)) h of
            (qs, h1) \<Rightarrow> alloc h1 (Obj qs))"

subsection \<open>processPropertyIsFunction\<close>

text \<open>
  Lines 6 to 27 of clone.js. A key is the name of a property of a plain object or an
  index of an array. \<open>for (const key in source)\<close> runs over the own keys of \<open>source\<close>, for
  all of which \<open>source.hasOwnProperty(key)\<close> holds (an own property that hides
  \<open>hasOwnProperty\<close> makes that call fail, or run a function of the caller's).
\<close>

datatype pkey = Name string | Index nat

fun own_keys :: "jsobj \<Rightarrow> pkey list" where
  "own_keys (Obj ps) = map (\<lambda>p. Name (fst p)) ps"
| "own_keys (Arr xs) = map Index [0..<length xs]"

fun member_of :: "jsobj \<Rightarrow> pkey \<Rightarrow> jsval" where
  "member_of (Obj ps) (Name k) = prop_of ps k"
| "member_of (Obj ps) (Index i) = prop_of ps (digits_of (int i))"
| "member_of (Arr xs) (Index i) = (if i < length xs then xs ! i else VUndefined)"
| "member_of (Arr xs) (Name k) = VUndefined"

fun get_member :: "heap \<Rightarrow> jsval \<Rightarrow> pkey \<Rightarrow> error + jsval" where
  "get_member h VUndefined key = Inl TypeError"
| "get_member h VNull key = Inl TypeError"
| "get_member h (VObj a) key =
     (case lookup h a of None \<Rightarrow> Inl Unmodelled | Some ob \<Rightarrow> Inr (member_of ob key))"
| "get_member h v key = Inr VUndefined"

fun set_member :: "heap \<Rightarrow> jsval \<Rightarrow> pkey \<Rightarrow> jsval \<Rightarrow> error + heap" where
  "set_member h (VObj a) key v =
     (case (lookup h a, key) of
        (Some (Obj ps), Name k) \<Rightarrow> Inr (h[a := Obj (upd ps k v)])
      | (Some (Obj ps), Index i) \<Rightarrow> Inr (h[a := Obj (upd ps (digits_of (int i)) v)])
      | (Some (Arr xs), Index i) \<Rightarrow>
          if i < length xs then Inr (h[a := Arr (xs[i := v])]) else Inl Unmodelled
      | _ \<Rightarrow> Inl Unmodelled)"
| "set_member h (VFun f) key v = Inl Unmodelled"
| "set_member h w key v = Inl TypeError"

definition instanceof_Array :: "heap \<Rightarrow> jsval \<Rightarrow> bool" where
  "instanceof_Array h v =
     (case v of
        VObj a \<Rightarrow> (case lookup h a of Some (Arr xs) \<Rightarrow> True | _ \<Rightarrow> False)
      | _ \<Rightarrow> False)"

definition elements :: "heap \<Rightarrow> jsval \<Rightarrow> jsval list" where
  "elements h v =
     (case v of
        VObj a \<Rightarrow> (case lookup h a of Some (Arr xs) \<Rightarrow> xs | _ \<Rightarrow> [])
      | _ \<Rightarrow> [])"

definition hasOwnProperty_call :: "jsobj \<Rightarrow> error + unit" where
  "hasOwnProperty_call ob =
     (case ob of
        Obj ps \<Rightarrow>
          (case map_of ps ''hasOwnProperty'' of
             None \<Rightarrow> Inr ()
           | Some (VFun f) \<Rightarrow> Inl Unmodelled
           | Some v \<Rightarrow> Inl TypeError)
      | Arr xs \<Rightarrow> Inr ())"

primrec processPropertyIsFunction :: "nat \<Rightarrow> heap \<Rightarrow> jsval \<Rightarrow> jsval \<Rightarrow> error + heap" where
  "processPropertyIsFunction 0 h source target =
     (case source of VObj a \<Rightarrow> Inl Unmodelled | _ \<Rightarrow> Inr h)"
| "processPropertyIsFunction (Suc n) h source target =
     (case source of
        VObj a \<Rightarrow>
          (case lookup h a of
             None \<Rightarrow> Inl Unmodelled
           | Some ob \<Rightarrow>
               for_each (own_keys ob) h
                 (\<lambda>key h.
                    bind (hasOwnProperty_call ob)
                      (\<lambda>u. bind (get_member h source key)
                         (\<lambda>value.
                            if typeof value = ''function'' then set_member h target key value
                            else if typeof value = ''object'' then
                              (if instanceof_Array h value then
                                 for_each (enumerate 0 (elements h value)) h
                                   (\<lambda>(index, item) h.
                                      bind (get_member h target key)
                                        (\<lambda>tk. bind (get_member h tk (Index index))
                                           (\<lambda>t. processPropertyIsFunction n h item t)))
                               else bind (get_member h target key)
                                      (\<lambda>t. processPropertyIsFunction n h value t))
                            else Inr h))))
      | _ \<Rightarrow> Inr h)"

subsection \<open>clone\<close>

text \<open>
  Lines 34 to 40. \<^verbatim>\<open>JSON.parse(undefined)\<close> is a SyntaxError: it reads the text
  \<^verbatim>\<open>undefined\<close>.
\<close>

definition clone :: "heap \<Rightarrow> jsval \<Rightarrow> error + (jsval \<times> heap)" where
  "clone h source =
     bind (stringify (length h) h source)
       (\<lambda>content.
          case content of
            None \<Rightarrow> Inl SyntaxError
          | Some j \<Rightarrow>
              (case parse j h of
                 (target, h1) \<Rightarrow>
                   bind (processPropertyIsFunction (length h) h1 source target)
                     (\<lambda>h2. Inr (target, h2))))"

section \<open>Notions used in the statements\<close>

text \<open>
  A host for the examples: an object converts to \<open>NaN\<close>, as a plain object without a
  \<^verbatim>\<open>valueOf\<close> of its own does; the locale prints a number without separators; and the
  local time of the time stamp is 9 January 2024, 05:06:47.
\<close>

definition sample_host :: host where
  "sample_host =
     \<lparr> objToNumber = (\<lambda>v. Inr NaN),
       toLocaleString = num_toString,
       localTime = (\<lambda>t. \<lparr> fullYear = Fin 2024 0, month = Fin 0 0, date = Fin 9 0,
                             hours = Fin 5 0, minutes = Fin 6 0, seconds = Fin 47 0 \<rparr>) \<rparr>"

text \<open>The rational number that \<open>Fin m e\<close> stands for.\<close>

definition value_of :: "int \<Rightarrow> int \<Rightarrow> rat" where
  "value_of m e = of_int m * 10 powi e"

text \<open>
  The rounding the specification describes for \<open>decimal = 0\<close>: to the nearest integer,
  an exact half going away from zero.
\<close>

definition round_half_away :: "rat \<Rightarrow> int" where
  "round_half_away q = (if 0 \<le> q then \<lfloor>q + 1 / 2\<rfloor> else - \<lfloor>- q + 1 / 2\<rfloor>)"

text \<open>An integer written in decimal digits, with a minus sign when negative.\<close>

definition int_text :: "int \<Rightarrow> string" where
  "int_text n = (if n < 0 then ''-'' @ digits_of (- n) else digits_of n)"

text \<open>The result of a call without the store it leaves.\<close>

definition outcome :: "error + ('a \<times> heap) \<Rightarrow> error + 'a" where
  "outcome r = (case r of Inl e \<Rightarrow> Inl e | Inr (x, h) \<Rightarrow> Inr x)"

text \<open>
  The part of the store \<open>h'\<close> left by a call that was already there in the store \<open>h\<close> in
  which the call started: the objects of the caller.
\<close>

definition old_part :: "heap \<Rightarrow> heap \<Rightarrow> heap" where
  "old_part h h' = take (length h) h'"

text \<open>
  The structured form of \<open>formatOption\<close>: a record whose \<open>small\<close> and \<open>large\<close> are each
  absent or a record of the store. \<open>field h v name\<close> is \<open>v.name\<close> where it can be read.
\<close>

definition sub_option :: "heap \<Rightarrow> jsval \<Rightarrow> bool" where
  "sub_option h v =
     (case v of
        VUndefined \<Rightarrow> True
      | VObj a \<Rightarrow> (case lookup h a of Some (Obj ps) \<Rightarrow> True | _ \<Rightarrow> False)
      | _ \<Rightarrow> False)"

definition field :: "heap \<Rightarrow> jsval \<Rightarrow> string \<Rightarrow> jsval" where
  "field h v name = (case get_prop h v name of Inr x \<Rightarrow> x | Inl e \<Rightarrow> VUndefined)"

definition structured :: "heap \<Rightarrow> jsval \<Rightarrow> bool" where
  "structured h formatOption =
     (case formatOption of
        VObj b \<Rightarrow>
          (case lookup h b of
             Some (Obj qs) \<Rightarrow>
               sub_option h (field h formatOption ''small'') \<and>
               sub_option h (field h formatOption ''large'')
           | _ \<Rightarrow> False)
      | _ \<Rightarrow> False)"

text \<open>
  When \<open>smallNumberFormat\<close> writes the default into the option it was given: the option
  is a record of the store whose \<open>decimal\<close> converts to \<open>NaN\<close> or to a negative number.
  \<open>write_default\<close> is the store after the assignment of line 71.
\<close>

definition needs_default :: "host \<Rightarrow> heap \<Rightarrow> jsval \<Rightarrow> bool" where
  "needs_default host h option =
     (case option of
        VObj a \<Rightarrow>
          (case lookup h a of
             Some (Obj ps) \<Rightarrow>
               (case toNumber host (prop_of ps ''decimal'') of
                  Inr d \<Rightarrow> num_isNaN d \<or> num_lt d zero
                | Inl e \<Rightarrow> False)
           | _ \<Rightarrow> False)
      | _ \<Rightarrow> False)"

definition write_default :: "heap \<Rightarrow> jsval \<Rightarrow> heap" where
  "write_default h option =
     (case option of
        VObj a \<Rightarrow>
          (case lookup h a of
             Some (Obj ps) \<Rightarrow> h[a := Obj (upd ps ''decimal'' (VNum (Fin 8 0)))]
           | _ \<Rightarrow> h)
      | _ \<Rightarrow> h)"

text \<open>
  The two-digit form of a calendar field: what \<open>smallNumberFormat\<close> makes of it with
  the options \<^verbatim>\<open>{ decimal: 0, isFillZeroInFront: true }\<close>.
\<close>

definition two_digit_text :: "jsnum \<Rightarrow> string" where
  "two_digit_text t =
     (if num_lt (num_abs t) (Fin 10 0) then ''0'' @ num_toString (math_round t)
      else num_toString (math_round t))"


text \<open>A number of absolute value below ten: what \<open>numberFormat\<close> gives to \<open>smallNumberFormat\<close>.\<close>

definition small_number :: "jsval \<Rightarrow> bool" where
  "small_number v = (case v of VNum x \<Rightarrow> num_lt (num_abs x) (Fin 10 0) | _ \<Rightarrow> False)"


section \<open>The specification's test vectors of retainDecimal\<close>

text \<open>
  Claim C5. \<open>retainDecimal(2.55, 1, false)\<close> is the string \<open>2.6\<close>,
  \<open>retainDecimal(1.2, 0, true)\<close> is \<open>1\<close> and \<open>retainDecimal(0, 3, false)\<close> is \<open>0.000\<close>, on
  every host.
\<close>

theorem retainDecimal_test_vectors:
  "retainDecimal host (VNum (Fin 255 (- 2))) (VNum (Fin 1 0)) (VBool False) = Inr (VStr ''2.6'')
   \<and> retainDecimal host (VNum (Fin 12 (- 1))) (VNum (Fin 0 0)) (VBool True) = Inr (VStr ''1'')
   \<and> retainDecimal host (VNum (Fin 0 0)) (VNum (Fin 3 0)) (VBool False) = Inr (VStr ''0.000'')"
  by code_simp

section \<open>NaN and the infinities in retainDecimal\<close>

lemma retainDecimal_of_number:
  "retainDecimal host (VNum x) decimal flag =
     bind (retainDecimal_num host x decimal flag) (\<lambda>s. Inr (VStr s))"
  by (simp add: retainDecimal_def)

text \<open>
  Claim C9. \<open>NaN\<close> and the infinities have type \<open>number\<close>, so the guard of
  \<open>retainDecimal\<close> lets them through and the digit algorithm runs on their text:
  with \<open>decimal = 2\<close> the result is \<open>N.aN\<close> when the zeros are kept and \<open>NaN\<close> when they
  are removed, for \<open>NaN\<close>, \<open>Infinity\<close> and \<open>-Infinity\<close> alike. For no number, no
  \<open>decimal\<close> and no flag is the result the number itself: it is a string or an error.
\<close>

theorem retainDecimal_nan_infinity:
  "typeof (VNum NaN) = ''number'' \<and> typeof (VNum PosInf) = ''number''
   \<and> retainDecimal host (VNum NaN) (VNum (Fin 2 0)) (VBool False) = Inr (VStr ''N.aN'')
   \<and> retainDecimal host (VNum NaN) (VNum (Fin 2 0)) (VBool True) = Inr (VStr ''NaN'')
   \<and> retainDecimal host (VNum PosInf) (VNum (Fin 2 0)) (VBool False) = Inr (VStr ''N.aN'')
   \<and> retainDecimal host (VNum PosInf) (VNum (Fin 2 0)) (VBool True) = Inr (VStr ''NaN'')
   \<and> retainDecimal host (VNum NegInf) (VNum (Fin 2 0)) (VBool False) = Inr (VStr ''N.aN'')
   \<and> retainDecimal host (VNum NegInf) (VNum (Fin 2 0)) (VBool True) = Inr (VStr ''NaN'')
   \<and> (\<forall>x decimal flag y. retainDecimal host (VNum x) decimal flag \<noteq> Inr (VNum y))"
proof -
  have general: "retainDecimal host (VNum x) decimal flag \<noteq> Inr (VNum y)" for x decimal flag y
    by (simp add: retainDecimal_of_number bind_def split: sum.splits)
  have vectors:
    "typeof (VNum NaN) = ''number'' \<and> typeof (VNum PosInf) = ''number''
     \<and> retainDecimal host (VNum NaN) (VNum (Fin 2 0)) (VBool False) = Inr (VStr ''N.aN'')
     \<and> retainDecimal host (VNum NaN) (VNum (Fin 2 0)) (VBool True) = Inr (VStr ''NaN'')
     \<and> retainDecimal host (VNum PosInf) (VNum (Fin 2 0)) (VBool False) = Inr (VStr ''N.aN'')
     \<and> retainDecimal host (VNum PosInf) (VNum (Fin 2 0)) (VBool True) = Inr (VStr ''NaN'')
     \<and> retainDecimal host (VNum NegInf) (VNum (Fin 2 0)) (VBool False) = Inr (VStr ''N.aN'')
     \<and> retainDecimal host (VNum NegInf) (VNum (Fin 2 0)) (VBool True) = Inr (VStr ''NaN'')"
    by code_simp
  from vectors general show ?thesis by blast
qed

section \<open>Functions inside arrays in clone\<close>

text \<open>
  Claim C1, at the input \<^verbatim>\<open>{arr: [f]}\<close>. The store holds the function \<open>f\<close> (\<open>VFun 7\<close>)
  in the array at address \<open>0\<close>, and the source object at address \<open>1\<close>. The clone is the
  object at address \<open>3\<close>; its \<open>arr\<close> is the fresh array at address \<open>2\<close>, whose element is
  \<open>null\<close> and not \<open>f\<close>: line 20 calls \<open>processPropertyIsFunction\<close> on the element, which
  returns at once on a function. The same function is restored when the array is the
  source itself, \<^verbatim>\<open>[f]\<close>, where the loop of line 10 runs over the indices, and when it
  sits in an object inside the array, \<^verbatim>\<open>{a: 1, f: f, arr: [{g: g}]}\<close>.
\<close>

theorem clone_function_in_array:
  "clone [Arr [VFun 7], Obj [(''arr'', VObj 0)]] (VObj 1) =
     Inr (VObj 3, [Arr [VFun 7], Obj [(''arr'', VObj 0)], Arr [VNull], Obj [(''arr'', VObj 2)]])
   \<and> clone [Arr [VFun 7]] (VObj 0) = Inr (VObj 1, [Arr [VFun 7], Arr [VFun 7]])
   \<and> clone [Obj [(''g'', VFun 2)], Arr [VObj 0],
            Obj [(''a'', VNum (Fin 1 0)), (''f'', VFun 1), (''arr'', VObj 1)]] (VObj 2) =
     Inr (VObj 5,
          [Obj [(''g'', VFun 2)], Arr [VObj 0],
           Obj [(''a'', VNum (Fin 1 0)), (''f'', VFun 1), (''arr'', VObj 1)],
           Obj [(''g'', VFun 2)], Arr [VObj 3],
           Obj [(''a'', VNum (Fin 1 0)), (''arr'', VObj 4), (''f'', VFun 1)]])"
  by code_simp

section \<open>Values that are not numbers\<close>

text \<open>
  Five of the formatters test the type of the value first and return a value that is
  not a number as it is. \<open>numberFormat\<close> does so when the conversion of the value to a
  number succeeds and \<open>formatOption\<close> is not \<open>null\<close>.
\<close>

lemma non_number_passes_through:
  assumes "typeof v \<noteq> ''number''"
  shows "outcome (smallNumberFormat host h v option) = Inr v"
    and "outcome (largeNumberFormat host h v option) = Inr (Plain v)"
    and "retainDecimal host v decimal flag = Inr v"
    and "percentFormat host v flag = Inr v"
    and "outcome (datetimeFormat host h v express) = Inr v"
  using assms
  by (cases v;
      simp add: smallNumberFormat_def largeNumberFormat_def retainDecimal_def percentFormat_def
        datetimeFormat_def outcome_def Let_def split: prod.splits)+

lemma numberFormat_passes_through:
  assumes "typeof v \<noteq> ''number''" and "toNumber host v = Inr n"
    and "typeof formatOption = ''object'' \<Longrightarrow> \<exists>b. formatOption = VObj b \<and> b < length h"
  shows "outcome (numberFormat host h v formatOption) = Inr (Plain v)"
proof -
  obtain fo h1 where e: "expand_option h formatOption = (fo, h1)"
    by fastforce
  have readable: "\<exists>x. get_prop h1 fo name = Inr x" for name
    using e assms(3)
    by (cases formatOption)
       (auto simp: expand_option_def alloc_def lookup_def nth_append split: jsobj.splits)
  have small: "outcome (bind (smallNumberFormat host h2 v option) (\<lambda>(r, h3). Inr (Plain r, h3))) =
               Inr (Plain v)" for h2 option
    using non_number_passes_through(1) [OF assms(1), of host h2 option]
    by (auto simp: outcome_def bind_def split: sum.splits prod.splits)
  show ?thesis
  proof (cases "num_lt (num_abs n) (Fin 10 0)")
    case True
    from readable [of "''small''"] obtain x where "get_prop h1 fo ''small'' = Inr x"
      by blast
    with True show ?thesis
      by (simp add: numberFormat_def e assms(2) bind_def small [unfolded bind_def]
          split: prod.splits)
  next
    case False
    from readable [of "''large''"] obtain x where "get_prop h1 fo ''large'' = Inr x"
      by blast
    with False show ?thesis
      by (simp add: numberFormat_def e assms(2) bind_def
          non_number_passes_through(2) [OF assms(1)] split: prod.splits)
  qed
qed

text \<open>
  Claim C7, at the inputs where \<open>numberFormat\<close> fails. \<open>numberFormat\<close> has no \<open>typeof\<close>
  guard of its own: line 48 applies \<^verbatim>\<open>Math.abs\<close> to the value, which throws a TypeError
  on a BigInt and on a symbol, whatever the options; and lines 50 and 52 read a property
  of \<open>formatOption\<close>, which throws when \<open>formatOption\<close> is \<open>null\<close> (of type \<open>object\<close>, so
  kept by the switch of line 27).
\<close>

theorem numberFormat_raises:
  "numberFormat host h (VBigInt i) formatOption = Inl TypeError
   \<and> numberFormat host h (VSymbol k) formatOption = Inl TypeError
   \<and> numberFormat host h (VStr s) VNull = Inl TypeError"
  by (simp add: numberFormat_def bind_def expand_option_def split: prod.splits)

section \<open>The dispatch of numberFormat\<close>

lemma lookup_new: "lookup (h @ [ob]) (length h) = Some ob"
  by (simp add: lookup_def)

lemma retainDecimal_num_default_flag:
  "retainDecimal_num host x d VUndefined = retainDecimal_num host x d (VBool True)"
  by (simp add: retainDecimal_num_def default_arg_def)

lemma retainDecimal_num_default_decimal:
  "retainDecimal_num host x VUndefined r = retainDecimal_num host x (VNum (Fin 2 0)) r"
  by (simp add: retainDecimal_num_def default_arg_def)

lemma smallNumberFormat_absent:
  "outcome (smallNumberFormat host (h @ [Obj []]) (VNum x) (VObj (length h))) =
   outcome (smallNumberFormat host h (VNum x) VUndefined)"
  by (simp add: smallNumberFormat_def alloc_def lookup_new prop_of_def bind_def zero_def
      align_def small_default_def retainDecimal_num_default_flag outcome_def
      split: sum.splits)

lemma largeNumberFormat_absent:
  "outcome (largeNumberFormat host (h @ [Obj []]) (VNum x) (VObj (length h))) =
   outcome (largeNumberFormat host h (VNum x) VUndefined)"
  by (simp add: largeNumberFormat_def alloc_def lookup_new prop_of_def bind_def
      large_default_def retainDecimal_num_default_flag retainDecimal_num_default_decimal
      outcome_def split: sum.splits prod.splits)


text \<open>
  Claim C4. For a number \<open>x\<close> and a \<open>formatOption\<close> in structured form, \<open>numberFormat\<close>
  gives what \<open>smallNumberFormat\<close> gives on \<open>formatOption.small\<close> when \<open>abs(x) < 10\<close>, and
  what \<open>largeNumberFormat\<close> gives on \<open>formatOption.large\<close> otherwise (so when
  \<open>abs(x) >= 10\<close>): the same string or record, or the same error. This holds when the
  sub-option is absent too: the \<^verbatim>\<open>{}\<close> that \<open>numberFormat\<close> passes then and the default
  parameter of the formatter lead to the same result.
\<close>

theorem numberFormat_dispatch:
  assumes "structured h opt"
  shows "(num_lt (num_abs x) (Fin 10 0) \<longrightarrow>
            outcome (numberFormat host h (VNum x) opt) =
            map_sum id Plain (outcome (smallNumberFormat host h (VNum x) (field h opt ''small''))))
       \<and> (\<not> num_lt (num_abs x) (Fin 10 0) \<longrightarrow>
            outcome (numberFormat host h (VNum x) opt) =
            outcome (largeNumberFormat host h (VNum x) (field h opt ''large'')))"
proof -
  from assms obtain b qs where opt: "opt = VObj b" and b: "lookup h b = Some (Obj qs)"
    and small: "sub_option h (prop_of qs ''small'')"
    and large: "sub_option h (prop_of qs ''large'')"
    by (auto simp: structured_def field_def split: jsval.splits option.splits jsobj.splits)
  have fs: "field h opt ''small'' = prop_of qs ''small''"
    and fl: "field h opt ''large'' = prop_of qs ''large''"
    by (simp_all add: field_def opt b)
  have expand: "expand_option h (VObj b) = (VObj b, h)"
    by (simp add: expand_option_def)
  have small_case:
    "outcome (bind (smallNumberFormat host h2 (VNum x) option) (\<lambda>(r, h3). Inr (Plain r, h3))) =
     map_sum id Plain (outcome (smallNumberFormat host h2 (VNum x) option))" for h2 option
    by (simp add: outcome_def bind_def split: sum.splits prod.splits)
  have "outcome (numberFormat host h (VNum x) opt) =
        map_sum id Plain (outcome (smallNumberFormat host h (VNum x) (prop_of qs ''small'')))"
    if lt: "num_lt (num_abs x) (Fin 10 0)"
  proof (cases "prop_of qs ''small'' = VUndefined")
    case True
    then show ?thesis
      using lt
      by (simp add: numberFormat_def expand bind_def opt b or_empty_def alloc_def
          small_case [unfolded bind_def] smallNumberFormat_absent)
  next
    case False
    with small have "toBoolean (prop_of qs ''small'')"
      by (auto simp: sub_option_def split: jsval.splits)
    then show ?thesis
      using lt
      by (simp add: numberFormat_def expand bind_def opt b or_empty_def
          small_case [unfolded bind_def])
  qed
  moreover have "outcome (numberFormat host h (VNum x) opt) =
        outcome (largeNumberFormat host h (VNum x) (prop_of qs ''large''))"
    if ge: "\<not> num_lt (num_abs x) (Fin 10 0)"
  proof (cases "prop_of qs ''large'' = VUndefined")
    case True
    then show ?thesis
      using ge
      by (simp add: numberFormat_def expand bind_def opt b or_empty_def alloc_def
          largeNumberFormat_absent)
  next
    case False
    with large have "toBoolean (prop_of qs ''large'')"
      by (auto simp: sub_option_def split: jsval.splits)
    then show ?thesis
      using ge
      by (simp add: numberFormat_def expand bind_def opt b or_empty_def)
  qed
  ultimately show ?thesis
    by (simp add: fs fl)
qed

theorem numberFormat_dispatch_witness:
  "structured [Obj [(''large'', VObj 1)], Obj [(''decimal'', VNum (Fin 1 0))]] (VObj 0)
   \<and> num_lt (num_abs (Fin 5 0)) (Fin 10 0)
   \<and> outcome (numberFormat sample_host [Obj [(''large'', VObj 1)], Obj [(''decimal'', VNum (Fin 1 0))]]
        (VNum (Fin 5 0)) (VObj 0)) =
     map_sum id Plain (outcome (smallNumberFormat sample_host
        [Obj [(''large'', VObj 1)], Obj [(''decimal'', VNum (Fin 1 0))]] (VNum (Fin 5 0)) VUndefined))
   \<and> \<not> num_lt (num_abs (Fin 123456 (- 1))) (Fin 10 0)
   \<and> outcome (numberFormat sample_host [Obj [(''large'', VObj 1)], Obj [(''decimal'', VNum (Fin 1 0))]]
        (VNum (Fin 123456 (- 1))) (VObj 0)) =
     outcome (largeNumberFormat sample_host
        [Obj [(''large'', VObj 1)], Obj [(''decimal'', VNum (Fin 1 0))]] (VNum (Fin 123456 (- 1))) (VObj 1))"
proof -
  let ?h = "[Obj [(''large'', VObj 1)], Obj [(''decimal'', VNum (Fin 1 0))]]"
  have s: "structured ?h (VObj 0)"
    by (simp add: structured_def field_def sub_option_def lookup_def prop_of_def)
  have f: "field ?h (VObj 0) ''small'' = VUndefined" "field ?h (VObj 0) ''large'' = VObj 1"
    by (simp_all add: field_def lookup_def prop_of_def)
  have c1: "num_lt (num_abs (Fin 5 0)) (Fin 10 0)"
    by (simp add: align_def)
  have c2: "\<not> num_lt (num_abs (Fin 123456 (- 1))) (Fin 10 0)"
    by (simp add: align_def)
  from numberFormat_dispatch [OF s, of "Fin 5 0" sample_host] c1
  have small:
    "outcome (numberFormat sample_host ?h (VNum (Fin 5 0)) (VObj 0)) =
     map_sum id Plain (outcome (smallNumberFormat sample_host ?h (VNum (Fin 5 0)) VUndefined))"
    unfolding f by blast
  from numberFormat_dispatch [OF s, of "Fin 123456 (- 1)" sample_host] c2
  have large:
    "outcome (numberFormat sample_host ?h (VNum (Fin 123456 (- 1))) (VObj 0)) =
     outcome (largeNumberFormat sample_host ?h (VNum (Fin 123456 (- 1))) (VObj 1))"
    unfolding f by blast
  from s c1 c2 small large show ?thesis
    by blast
qed

section \<open>What the formatters change in the store\<close>

lemma old_part_self: "old_part h h = h"
  by (simp add: old_part_def)

lemma old_part_append: "old_part h (h @ obs) = h"
  by (simp add: old_part_def)

lemma old_part_prefix: "old_part h h' = h \<longleftrightarrow> prefix h h'"
  unfolding old_part_def prefix_def
  by (metis append_eq_conv_conj)

text \<open>What smallNumberFormat leaves in the store, for an option that is not undefined.\<close>

lemma smallNumberFormat_store:
  assumes "smallNumberFormat host h value option = Inr (r, h')" and "option \<noteq> VUndefined"
  shows "h' = (if typeof value = ''number'' \<and> needs_default host h option
               then write_default h option else h)"
proof (cases "value")
  case (VNum x)
  show ?thesis
  proof (cases option)
    case (VObj a)
    with assms VNum show ?thesis
      by (auto simp: smallNumberFormat_def bind_def needs_default_def write_default_def
          split: sum.splits option.splits jsobj.splits if_splits)
  qed (use assms VNum in \<open>auto simp: smallNumberFormat_def bind_def needs_default_def
        write_default_def split: sum.splits if_splits\<close>)
qed (use assms in \<open>auto simp: smallNumberFormat_def\<close>)


lemma smallNumberFormat_store_default:
  assumes "smallNumberFormat host h value VUndefined = Inr (r, h')"
  shows "h' = h @ [small_default]"
  using assms
  by (cases "value")
     (auto simp: smallNumberFormat_def alloc_def bind_def lookup_new small_default_def
        prop_of_def zero_def align_def split: sum.splits if_splits)

lemma needs_default_VUndefined: "\<not> needs_default host h VUndefined"
  by (simp add: needs_default_def)

lemma smallNumberFormat_frame:
  assumes "smallNumberFormat host h value option = Inr (r, h')"
  shows "old_part h h' =
           (if typeof value = ''number'' \<and> needs_default host h option
            then write_default h option else h)"
proof (cases "option = VUndefined")
  case True
  with assms have "h' = h @ [small_default]"
    by (simp add: smallNumberFormat_store_default)
  with True show ?thesis
    by (simp add: old_part_append needs_default_VUndefined)
next
  case False
  from smallNumberFormat_store [OF assms False] show ?thesis
    by (auto simp: old_part_def write_default_def split: jsval.splits option.splits jsobj.splits)
qed

lemma largeNumberFormat_frame:
  assumes "largeNumberFormat host h value option = Inr (r, h')"
  shows "old_part h h' = h"
  using assms
  by (cases "value")
     (auto simp: largeNumberFormat_def alloc_def bind_def old_part_def Let_def
        split: sum.splits if_splits prod.splits)

text \<open>The option object of datetimeFormat has a valid decimal: nothing is written.\<close>

lemma two_digits_frame:
  "two_digits host h datetime keys = Inr (datetime', h') \<Longrightarrow> old_part h h' = h"
proof (induction keys arbitrary: h datetime)
  case Nil
  then show ?case by (simp add: old_part_def)
next
  case (Cons key keys)
  let ?ob = "Obj [(''decimal'', VNum zero), (''isFillZeroInFront'', VBool True)]"
  let ?time = "prop_of datetime (js_slice key (Fin 1 0) None)"
  from Cons.prems obtain r h2 where
    small: "smallNumberFormat host (h @ [?ob]) ?time (VObj (length h)) = Inr (r, h2)"
    and rest: "two_digits host h2 (upd datetime key r) keys = Inr (datetime', h')"
    by (auto simp: alloc_def bind_def split: sum.splits)
  have "\<not> needs_default host (h @ [?ob]) (VObj (length h))"
    by (simp add: needs_default_def lookup_new prop_of_def zero_def align_def)
  with smallNumberFormat_frame [OF small] have "old_part (h @ [?ob]) h2 = h @ [?ob]"
    by simp
  moreover from Cons.IH [OF rest] have "old_part h2 h' = h2" .
  ultimately have "prefix (h @ [?ob]) h2" and "prefix h2 h'"
    by (simp_all add: old_part_prefix)
  then have "prefix h h'"
    by (meson prefix_order.trans prefixI)
  then show ?case
    by (simp add: old_part_prefix)
qed

lemma datetimeFormat_frame:
  assumes "datetimeFormat host h value express = Inr (r, h')"
  shows "old_part h h' = h"
proof (cases "value")
  case (VNum x)
  with assms show ?thesis
    by (auto simp: datetimeFormat_def bind_def Let_def old_part_self
        simp del: two_digits.simps
        split: sum.splits prod.splits jsval.splits dest: two_digits_frame)
qed (use assms in \<open>auto simp: datetimeFormat_def old_part_self\<close>)



lemma old_part_old_part: "old_part h (old_part (h @ new) h') = old_part h h'"
  by (simp add: old_part_def min_def)

lemma write_default_fresh:
  "length h \<le> a \<Longrightarrow> old_part h (write_default (h @ new) (VObj a)) = h"
  by (simp add: write_default_def old_part_def split: option.splits jsobj.splits)

lemma smallNumberFormat_frame_fresh:
  assumes "smallNumberFormat host (h @ new) v (VObj a) = Inr (r, h')" and "length h \<le> a"
  shows "old_part h h' = h"
proof -
  from smallNumberFormat_frame [OF assms(1)]
  have "old_part h (old_part (h @ new) h') = h"
    using assms(2) by (simp add: write_default_fresh old_part_append split: if_splits)
  then show ?thesis
    by (simp add: old_part_old_part)
qed

lemma largeNumberFormat_frame_after:
  assumes "largeNumberFormat host (h @ new) v option = Inr (r, h')"
  shows "old_part h h' = h"
proof -
  from largeNumberFormat_frame [OF assms]
  have "old_part h (old_part (h @ new) h') = h"
    by (simp add: old_part_append)
  then show ?thesis
    by (simp add: old_part_old_part)
qed

lemma numberFormat_run:
  assumes "numberFormat host h v formatOption = Inr (r, h')"
  obtains (small) fo h1 n small option h2 r' where
      "expand_option h formatOption = (fo, h1)" and "toNumber host v = Inr n"
      and "num_lt (num_abs n) (Fin 10 0)" and "get_prop h1 fo ''small'' = Inr small"
      and "or_empty h1 small = (option, h2)"
      and "smallNumberFormat host h2 v option = Inr (r', h')"
    | (large) fo h1 n large option h2 where
      "expand_option h formatOption = (fo, h1)" and "toNumber host v = Inr n"
      and "\<not> num_lt (num_abs n) (Fin 10 0)" and "get_prop h1 fo ''large'' = Inr large"
      and "or_empty h1 large = (option, h2)"
      and "largeNumberFormat host h2 v option = Inr (r, h')"
  using assms
  by (auto simp: numberFormat_def bind_def simp del: get_prop.simps
      split: prod.splits sum.splits if_splits)

lemma or_empty_cases:
  obtains (given) "toBoolean x" and "or_empty h x = (x, h)"
    | (empty) "\<not> toBoolean x" and "or_empty h x = (VObj (length h), h @ [Obj []])"
  by (cases "toBoolean x") (auto simp: or_empty_def alloc_def)

lemma expand_option_prefix:
  assumes "expand_option h formatOption = (fo, h1)"
  obtains new where "h1 = h @ new"
  using assms by (auto simp: expand_option_def alloc_def split: if_splits)

text \<open>An option made by numberFormat itself is a new object or an absent one.\<close>

lemma expand_option_small:
  assumes "expand_option h formatOption = (fo, h1)" and "typeof formatOption \<noteq> ''object''"
    and "get_prop h1 fo ''small'' = Inr small" and "toBoolean small"
  shows "\<exists>a. small = VObj a \<and> length h \<le> a"
  using assms
  by (cases formatOption)
     (auto simp: expand_option_def alloc_def lookup_def nth_append prop_of_def split: if_splits)

lemma numberFormat_frame:
  assumes run: "numberFormat host h v formatOption = Inr (r, h')"
  shows "old_part h h' =
           (if small_number v \<and> typeof formatOption = ''object'' \<and>
               needs_default host h (field h formatOption ''small'')
            then write_default h (field h formatOption ''small'') else h)"
  using run
proof (cases rule: numberFormat_run)
  case (large fo h1 n large option h2)
  from large(1) obtain new where "h1 = h @ new"
    by (rule expand_option_prefix)
  with large(5) obtain new' where "h2 = h @ new'"
    by (cases rule: or_empty_cases [where x = large and h = h1]) auto
  with large(6) have "old_part h h' = h"
    by (auto dest: largeNumberFormat_frame_after)
  moreover from large(2,3) have "\<not> small_number v"
    by (auto simp: small_number_def split: jsval.splits)
  ultimately show ?thesis by simp
next
  case (small fo h1 n small option h2 r')
  from small(1) obtain new where h1: "h1 = h @ new"
    by (rule expand_option_prefix)
  show ?thesis
  proof (cases rule: or_empty_cases [where x = small and h = h1])
    case empty
    with small(5,6) h1 have "smallNumberFormat host (h @ new @ [Obj []]) v (VObj (length h1)) = Inr (r', h')"
      by simp
    then have "old_part h h' = h"
      using smallNumberFormat_frame_fresh [of host h "new @ [Obj []]" v "length h1" r' h'] h1
      by simp
    moreover have "typeof formatOption = ''object'' \<Longrightarrow> \<not> needs_default host h (field h formatOption ''small'')"
      using small(1,4) empty(1)
      by (auto simp: expand_option_def field_def needs_default_def split: jsval.splits)
    ultimately show ?thesis by auto
  next
    case given
    with small(5) have opt: "option = small" "h2 = h1" by simp_all
    show ?thesis
    proof (cases "typeof formatOption = ''object''")
      case False
      from expand_option_small [OF small(1) False small(4) given(1)]
      obtain a where "small = VObj a" "length h \<le> a" by blast
      with small(6) opt h1 have "old_part h h' = h"
        by (auto dest: smallNumberFormat_frame_fresh)
      with False show ?thesis by simp
    next
      case True
      with small(1) have "fo = formatOption" "h1 = h"
        by (simp_all add: expand_option_def split: if_splits jsval.splits)
      with small(4,6) opt have field: "field h formatOption ''small'' = small"
        and "smallNumberFormat host h v small = Inr (r', h')"
        by (simp_all add: field_def)
      from smallNumberFormat_frame [OF this(2)] have
        "old_part h h' = (if typeof v = ''number'' \<and> needs_default host h small
                          then write_default h small else h)" .
      moreover have "typeof v = ''number'' \<longleftrightarrow> small_number v"
        using small(2,3) by (cases v) (auto simp: small_number_def)
      ultimately show ?thesis
        by (simp add: field True)
    qed
  qed
qed


text \<open>
  Claim C3 as it is stated fails: \<open>smallNumberFormat(5, {isFillZeroInFront: true})\<close>
  returns \<open>05\<close> and leaves \<open>decimal: 8\<close> in the record of the caller, and
  \<open>numberFormat(5, {small: o})\<close> does the same to \<open>o\<close>.
\<close>

theorem smallNumberFormat_writes_option:
  "smallNumberFormat sample_host [Obj [(''isFillZeroInFront'', VBool True)]] (VNum (Fin 5 0)) (VObj 0) =
     Inr (VStr ''05'', [Obj [(''isFillZeroInFront'', VBool True), (''decimal'', VNum (Fin 8 0))]])
   \<and> numberFormat sample_host
         [Obj [(''isFillZeroInFront'', VBool True)], Obj [(''small'', VObj 0)]] (VNum (Fin 5 0)) (VObj 1) =
     Inr (Plain (VStr ''05''),
          [Obj [(''isFillZeroInFront'', VBool True), (''decimal'', VNum (Fin 8 0))],
           Obj [(''small'', VObj 0)]])"
  by code_simp

text \<open>
  Claim C3, amended. \<open>largeNumberFormat\<close> and \<open>datetimeFormat\<close> leave every object of the
  caller as it was (\<open>retainDecimal\<close> and \<open>percentFormat\<close> take no object and reach none).
  \<open>smallNumberFormat\<close> changes at most the option record it is given: when the value is
  a number and the record's \<open>decimal\<close> is missing, not a number or negative, it
  writes \<open>decimal = 8\<close> into that record (line 71), and changes nothing else.
  \<open>numberFormat\<close> does the same to \<open>formatOption.small\<close> when \<open>formatOption\<close> is an object
  and the value is a number of absolute value below ten, and changes nothing otherwise.
\<close>

theorem formatters_frame:
  "(largeNumberFormat host h v option = Inr (r1, h1) \<longrightarrow> old_part h h1 = h)
   \<and> (datetimeFormat host h v express = Inr (r2, h2) \<longrightarrow> old_part h h2 = h)
   \<and> (smallNumberFormat host h v option = Inr (r3, h3) \<longrightarrow>
        old_part h h3 =
          (if typeof v = ''number'' \<and> needs_default host h option
           then write_default h option else h))
   \<and> (numberFormat host h v formatOption = Inr (r4, h4) \<longrightarrow>
        old_part h h4 =
          (if small_number v \<and> typeof formatOption = ''object'' \<and>
              needs_default host h (field h formatOption ''small'')
           then write_default h (field h formatOption ''small'') else h))"
proof (intro conjI impI)
  show "old_part h h1 = h" if "largeNumberFormat host h v option = Inr (r1, h1)"
    using that by (rule largeNumberFormat_frame)
  show "old_part h h2 = h" if "datetimeFormat host h v express = Inr (r2, h2)"
    using that by (rule datetimeFormat_frame)
  show "old_part h h3 =
          (if typeof v = ''number'' \<and> needs_default host h option
           then write_default h option else h)"
    if "smallNumberFormat host h v option = Inr (r3, h3)"
    using that by (rule smallNumberFormat_frame)
  show "old_part h h4 =
          (if small_number v \<and> typeof formatOption = ''object'' \<and>
              needs_default host h (field h formatOption ''small'')
           then write_default h (field h formatOption ''small'') else h)"
    if "numberFormat host h v formatOption = Inr (r4, h4)"
    using that by (rule numberFormat_frame)
qed

theorem formatters_frame_witness:
  "largeNumberFormat sample_host
      [Obj [(''isFillZeroInFront'', VBool True)], Obj [(''small'', VObj 0)]]
      (VNum (Fin 50000 0)) (VObj 0) =
     Inr (Plain (VStr (''5'' @ unit_wan)),
          [Obj [(''isFillZeroInFront'', VBool True)], Obj [(''small'', VObj 0)]])
   \<and> old_part [Obj [(''isFillZeroInFront'', VBool True)], Obj [(''small'', VObj 0)]]
         [Obj [(''isFillZeroInFront'', VBool True)], Obj [(''small'', VObj 0)]] =
       [Obj [(''isFillZeroInFront'', VBool True)], Obj [(''small'', VObj 0)]]
   \<and> datetimeFormat sample_host [Obj [(''isFillZeroInFront'', VBool True)]] (VNum zero) VUndefined =
     Inr (VStr ''20240109 05:06:47'',
          Obj [(''isFillZeroInFront'', VBool True)] #
          replicate 5 (Obj [(''decimal'', VNum zero), (''isFillZeroInFront'', VBool True)]))
   \<and> old_part [Obj [(''isFillZeroInFront'', VBool True)]]
         (Obj [(''isFillZeroInFront'', VBool True)] #
          replicate 5 (Obj [(''decimal'', VNum zero), (''isFillZeroInFront'', VBool True)])) =
       [Obj [(''isFillZeroInFront'', VBool True)]]
   \<and> smallNumberFormat sample_host
         [Obj [(''isFillZeroInFront'', VBool True)], Obj [(''small'', VObj 0)]]
         (VNum (Fin 5 0)) (VObj 0) =
       Inr (VStr ''05'',
            [Obj [(''isFillZeroInFront'', VBool True), (''decimal'', VNum (Fin 8 0))],
             Obj [(''small'', VObj 0)]])
   \<and> numberFormat sample_host
         [Obj [(''isFillZeroInFront'', VBool True)], Obj [(''small'', VObj 0)]]
         (VNum (Fin 5 0)) (VObj 1) =
       Inr (Plain (VStr ''05''),
            [Obj [(''isFillZeroInFront'', VBool True), (''decimal'', VNum (Fin 8 0))],
             Obj [(''small'', VObj 0)]])
   \<and> old_part [Obj [(''isFillZeroInFront'', VBool True)], Obj [(''small'', VObj 0)]]
         [Obj [(''isFillZeroInFront'', VBool True), (''decimal'', VNum (Fin 8 0))],
          Obj [(''small'', VObj 0)]] =
       write_default [Obj [(''isFillZeroInFront'', VBool True)], Obj [(''small'', VObj 0)]] (VObj 0)
   \<and> field [Obj [(''isFillZeroInFront'', VBool True)], Obj [(''small'', VObj 0)]] (VObj 1) ''small'' =
       VObj 0"
proof -
  let ?H = "[Obj [(''isFillZeroInFront'', VBool True)], Obj [(''small'', VObj 0)]]"
  let ?H1 = "[Obj [(''isFillZeroInFront'', VBool True), (''decimal'', VNum (Fin 8 0))],
              Obj [(''small'', VObj 0)]]"
  let ?G = "[Obj [(''isFillZeroInFront'', VBool True)]]"
  let ?G1 = "Obj [(''isFillZeroInFront'', VBool True)] #
             replicate 5 (Obj [(''decimal'', VNum zero), (''isFillZeroInFront'', VBool True)])"
  have L: "largeNumberFormat sample_host ?H (VNum (Fin 50000 0)) (VObj 0) =
             Inr (Plain (VStr (''5'' @ unit_wan)), ?H)"
    by code_simp
  have D: "datetimeFormat sample_host ?G (VNum zero) VUndefined =
             Inr (VStr ''20240109 05:06:47'', ?G1)"
    by code_simp
  have S: "smallNumberFormat sample_host ?H (VNum (Fin 5 0)) (VObj 0) = Inr (VStr ''05'', ?H1)"
    by code_simp
  have N: "numberFormat sample_host ?H (VNum (Fin 5 0)) (VObj 1) = Inr (Plain (VStr ''05''), ?H1)"
    by code_simp
  have f: "field ?H (VObj 1) ''small'' = VObj 0"
    by (simp add: field_def lookup_def prop_of_def)
  have c: "typeof (VNum (Fin 5 0)) = ''number''" "needs_default sample_host ?H (VObj 0)"
    "small_number (VNum (Fin 5 0))" "typeof (VObj 1) = ''object''"
    by (simp_all add: needs_default_def lookup_def prop_of_def sample_host_def
        small_number_def align_def)
  from L formatters_frame [where host = sample_host and h = ?H and v = "VNum (Fin 50000 0)"
      and option = "VObj 0" and ?r1.0 = "Plain (VStr (''5'' @ unit_wan))" and ?h1.0 = ?H]
  have l: "old_part ?H ?H = ?H"
    by blast
  from D formatters_frame [where host = sample_host and h = ?G and v = "VNum zero"
      and express = VUndefined and ?r2.0 = "VStr ''20240109 05:06:47''" and ?h2.0 = ?G1]
  have d: "old_part ?G ?G1 = ?G"
    by blast
  from S c formatters_frame [where host = sample_host and h = ?H and v = "VNum (Fin 5 0)"
      and option = "VObj 0" and ?r3.0 = "VStr ''05''" and ?h3.0 = ?H1]
  have s: "old_part ?H ?H1 = write_default ?H (VObj 0)"
    by simp
  from N c f formatters_frame [where host = sample_host and h = ?H and v = "VNum (Fin 5 0)"
      and formatOption = "VObj 1" and ?r4.0 = "Plain (VStr ''05'')" and ?h4.0 = ?H1]
  have n: "old_part ?H ?H1 = write_default ?H (field ?H (VObj 1) ''small'')"
    by simp
  from L l D d S N s f show ?thesis
    by blast
qed

section \<open>Units and divisors of largeNumberFormat\<close>












section \<open>The substitution of tokens in datetimeFormat\<close>

lemma js_replace_absent:
  "(\<forall>i \<le> length s. \<not> prefix key (drop i s)) \<Longrightarrow> js_replace s key r = s"
proof (induction s)
  case Nil
  then show ?case by auto
next
  case (Cons c cs)
  from Cons.prems have "\<not> prefix key (c # cs)"
    by (metis drop0 le0)
  moreover have "\<forall>i \<le> length cs. \<not> prefix key (drop i cs)"
  proof (intro allI impI)
    fix i assume "i \<le> length cs"
    with Cons.prems have "\<not> prefix key (drop (Suc i) (c # cs))"
      by (metis Suc_le_mono length_Cons)
    then show "\<not> prefix key (drop i cs)" by simp
  qed
  ultimately show ?case
    using Cons.IH by simp
qed

lemma js_replace_here: "js_replace (key @ post) key r = r @ post"
proof (cases "key @ post")
  case Nil
  then show ?thesis by simp
next
  case (Cons a list)
  then have "prefix key (a # list)"
    by (metis prefixI)
  then have "js_replace (a # list) key r = r @ drop (length key) (a # list)"
    by simp
  with Cons show ?thesis
    by (metis append_eq_conv_conj)
qed

lemma js_replace_first:
  "(\<forall>i < length pre. \<not> prefix key (drop i (pre @ key @ post))) \<Longrightarrow>
   js_replace (pre @ key @ post) key r = pre @ r @ post"
proof (induction pre)
  case Nil
  then show ?case
    by (simp add: js_replace_here)
next
  case (Cons c cs)
  from Cons.prems have "\<not> prefix key ((c # cs) @ key @ post)"
    by (metis drop0 length_greater_0_conv list.discI)
  moreover have "\<forall>i < length cs. \<not> prefix key (drop i (cs @ key @ post))"
  proof (intro allI impI)
    fix i assume "i < length cs"
    with Cons.prems have "\<not> prefix key (drop (Suc i) ((c # cs) @ key @ post))"
      by (metis Suc_less_eq length_Cons)
    then show "\<not> prefix key (drop i (cs @ key @ post))" by simp
  qed
  ultimately show ?case
    using Cons.IH by simp
qed


lemma smallNumberFormat_two_digits:
  "smallNumberFormat host
     (h @ [Obj [(''decimal'', VNum zero), (''isFillZeroInFront'', VBool True)]])
     (VNum t) (VObj (length h)) =
   Inr (VStr (two_digit_text t),
        h @ [Obj [(''decimal'', VNum zero), (''isFillZeroInFront'', VBool True)]])"
  by (simp add: smallNumberFormat_def bind_def lookup_new prop_of_def zero_def align_def
      retainDecimal_num_def default_arg_def strict_zero_def two_digit_text_def)

lemma two_digits_step:
  "prop_of datetime (js_slice key (Fin 1 0) None) = VNum t \<Longrightarrow>
   two_digits host h datetime (key # keys) =
   two_digits host (h @ [Obj [(''decimal'', VNum zero), (''isFillZeroInFront'', VBool True)]])
     (upd datetime key (VStr (two_digit_text t))) keys"
  by (simp add: alloc_def bind_def smallNumberFormat_two_digits)

lemma slice_tokens:
  "js_slice ''MM'' (Fin 1 0) None = ''M''" "js_slice ''dd'' (Fin 1 0) None = ''d''"
  "js_slice ''hh'' (Fin 1 0) None = ''h''" "js_slice ''mm'' (Fin 1 0) None = ''m''"
  "js_slice ''ss'' (Fin 1 0) None = ''s''"
  by (simp_all add: js_slice_def fin_trunc_def)

lemma datetimeFormat_substitution:
  "outcome (datetimeFormat host h (VNum x) (VStr express)) =
     (let d = localTime host x;
          M = num_add (month d) (Fin 1 0);
          s1 = js_replace express ''yyyy'' (num_toString (fullYear d));
          s2 = js_replace s1 ''MM'' (two_digit_text M);
          s3 = js_replace s2 ''dd'' (two_digit_text (date d));
          s4 = js_replace s3 ''hh'' (two_digit_text (hours d));
          s5 = js_replace s4 ''mm'' (two_digit_text (minutes d));
          s6 = js_replace s5 ''ss'' (two_digit_text (seconds d));
          s7 = js_replace s6 ''yy'' (js_substr (num_toString (fullYear d)) (Fin 2 0) None);
          s8 = js_replace s7 ''M'' (num_toString M);
          s9 = js_replace s8 ''d'' (num_toString (date d));
          s10 = js_replace s9 ''h'' (num_toString (hours d));
          s11 = js_replace s10 ''m'' (num_toString (minutes d));
          s12 = js_replace s11 ''s'' (num_toString (seconds d))
      in Inr (VStr s12))"
  by (simp add: datetimeFormat_def default_arg_def Let_def two_digits_step slice_tokens
      prop_of_def bind_def substitute_def tokens_def outcome_def
      del: two_digits.simps(2) js_replace.simps)


text \<open>
  Claim C8 as it is stated fails on its last part: the second occurrence of a token is
  not always left as it is. In \<open>hh hh\<close> the step of \<open>hh\<close> replaces the first occurrence,
  and the later step of \<open>h\<close> replaces the first letter of the second one; likewise
  \<open>yy\<close> rewrites a second \<open>yyyy\<close> and \<open>M\<close> a second \<open>MM\<close>.
\<close>

theorem datetimeFormat_second_occurrence:
  "outcome (datetimeFormat sample_host [] (VNum zero) (VStr ''hh hh'')) = Inr (VStr ''05 5h'')
   \<and> outcome (datetimeFormat sample_host [] (VNum zero) (VStr ''yyyy yyyy MM MM'')) =
       Inr (VStr ''2024 24yy 01 1M'')"
  by code_simp

text \<open>
  Claim C8, amended. For a numeric time stamp and a pattern string, \<open>datetimeFormat\<close>
  substitutes the tokens in the order \<open>yyyy\<close>, \<open>MM\<close>, \<open>dd\<close>, \<open>hh\<close>, \<open>mm\<close>, \<open>ss\<close>, \<open>yy\<close>,
  \<open>M\<close>, \<open>d\<close>, \<open>h\<close>, \<open>m\<close>, \<open>s\<close>, each step working on the result of the one before. A
  step replaces the first occurrence of its token and nothing else: where the token
  first occurs after \<open>pre\<close>, the result is \<open>pre\<close>, the replacement and the rest; where
  it does not occur, the pattern is unchanged. A later occurrence of the token is
  therefore not touched by that step, and stays in the pattern for the steps that
  follow.
\<close>

theorem datetimeFormat_token_order:
  "outcome (datetimeFormat host h (VNum x) (VStr express)) =
     (let d = localTime host x;
          M = num_add (month d) (Fin 1 0);
          s1 = js_replace express ''yyyy'' (num_toString (fullYear d));
          s2 = js_replace s1 ''MM'' (two_digit_text M);
          s3 = js_replace s2 ''dd'' (two_digit_text (date d));
          s4 = js_replace s3 ''hh'' (two_digit_text (hours d));
          s5 = js_replace s4 ''mm'' (two_digit_text (minutes d));
          s6 = js_replace s5 ''ss'' (two_digit_text (seconds d));
          s7 = js_replace s6 ''yy'' (js_substr (num_toString (fullYear d)) (Fin 2 0) None);
          s8 = js_replace s7 ''M'' (num_toString M);
          s9 = js_replace s8 ''d'' (num_toString (date d));
          s10 = js_replace s9 ''h'' (num_toString (hours d));
          s11 = js_replace s10 ''m'' (num_toString (minutes d));
          s12 = js_replace s11 ''s'' (num_toString (seconds d))
      in Inr (VStr s12))
   \<and> ((\<forall>i < length pre. \<not> prefix key (drop i (pre @ key @ post))) \<longrightarrow>
        js_replace (pre @ key @ post) key r = pre @ r @ post)
   \<and> ((\<forall>i \<le> length s. \<not> prefix key (drop i s)) \<longrightarrow> js_replace s key r = s)"
  using datetimeFormat_substitution [of host h x express]
    js_replace_first [of pre key post r] js_replace_absent [of s key r]
  by blast

theorem datetimeFormat_token_order_witness:
  "outcome (datetimeFormat sample_host [] (VNum zero) (VStr ''hh:hh d'')) = Inr (VStr ''05:5h 9'')
   \<and> js_replace (''ab'' @ ''hh'' @ '':hh'') ''hh'' ''05'' = ''ab'' @ ''05'' @ '':hh''
   \<and> js_replace ''05:5h'' ''hh'' ''05'' = ''05:5h''"
proof -
  note inst = datetimeFormat_token_order [of sample_host "[]" zero "''hh:hh d''"
      "''ab''" "''hh''" "'':hh''" "''05''" "''05:5h''"]
  from inst have
    "outcome (datetimeFormat sample_host [] (VNum zero) (VStr ''hh:hh d'')) =
       (let d = localTime sample_host zero;
            M = num_add (month d) (Fin 1 0);
            s1 = js_replace ''hh:hh d'' ''yyyy'' (num_toString (fullYear d));
            s2 = js_replace s1 ''MM'' (two_digit_text M);
            s3 = js_replace s2 ''dd'' (two_digit_text (date d));
            s4 = js_replace s3 ''hh'' (two_digit_text (hours d));
            s5 = js_replace s4 ''mm'' (two_digit_text (minutes d));
            s6 = js_replace s5 ''ss'' (two_digit_text (seconds d));
            s7 = js_replace s6 ''yy'' (js_substr (num_toString (fullYear d)) (Fin 2 0) None);
            s8 = js_replace s7 ''M'' (num_toString M);
            s9 = js_replace s8 ''d'' (num_toString (date d));
            s10 = js_replace s9 ''h'' (num_toString (hours d));
            s11 = js_replace s10 ''m'' (num_toString (minutes d));
            s12 = js_replace s11 ''s'' (num_toString (seconds d))
        in Inr (VStr s12))"
    by (rule conjunct1)
  also have "\<dots> = Inr (VStr ''05:5h 9'')"
    by code_simp
  finally have run:
    "outcome (datetimeFormat sample_host [] (VNum zero) (VStr ''hh:hh d'')) = Inr (VStr ''05:5h 9'')" .
  have first: "\<forall>i < length ''ab''. \<not> prefix ''hh'' (drop i (''ab'' @ ''hh'' @ '':hh''))"
    by (auto simp: less_Suc_eq numeral_2_eq_2)
  have absent: "\<forall>i \<le> length ''05:5h''. \<not> prefix ''hh'' (drop i ''05:5h'')"
    by (auto simp: le_Suc_eq)
  from inst first have "js_replace (''ab'' @ ''hh'' @ '':hh'') ''hh'' ''05'' = ''ab'' @ ''05'' @ '':hh''"
    by blast
  moreover from inst absent have "js_replace ''05:5h'' ''hh'' ''05'' = ''05:5h''"
    by blast
  ultimately show ?thesis
    using run by blast
qed

section \<open>retainDecimal with no decimals\<close>

lemma digit_char_is_digit: "0 \<le> n \<Longrightarrow> n < 10 \<Longrightarrow> is_digit (digit_char n)"
proof -
  assume "0 \<le> n" "n < 10"
  then have "nat n < length ''0123456789''" by simp
  then have "''0123456789'' ! nat n \<in> set ''0123456789''"
    by (rule nth_mem)
  then show ?thesis
    by (simp only: is_digit_def digit_char_def)
qed

lemma digits_of_digits: "0 \<le> n \<Longrightarrow> c \<in> set (digits_of n) \<Longrightarrow> is_digit c"
proof (induction n arbitrary: c rule: digits_of.induct)
  case (1 n)
  show ?case
  proof (cases "n < 10")
    case True
    with "1.prems" show ?thesis
      by (simp add: digits_of.simps [of n] digit_char_is_digit)
  next
    case False
    with "1.prems"(2) have "c \<in> set (digits_of (n div 10)) \<or> c = digit_char (n mod 10)"
      by (auto simp: digits_of.simps [of n])
    then show ?thesis
    proof
      assume "c \<in> set (digits_of (n div 10))"
      with "1.IH" [OF False] "1.prems"(1) show ?thesis by simp
    next
      assume "c = digit_char (n mod 10)"
      then show ?thesis by (simp add: digit_char_is_digit)
    qed
  qed
qed

lemma dot_not_digit: "\<not> is_digit CHR ''.''"
  by (simp add: is_digit_def)


lemma digits_of_times_10: "0 < a \<Longrightarrow> digits_of (a * 10) = digits_of a @ ''0''"
  by (subst digits_of.simps) (simp add: digit_char_def)

lemma digits_of_times_pow10: "0 < a \<Longrightarrow> digits_of (a * 10 ^ k) = digits_of a @ replicate k CHR ''0''"
proof (induction k)
  case 0
  then show ?case by simp
next
  case (Suc k)
  then have "0 < a * 10 ^ k" by simp
  from digits_of_times_10 [OF this] Suc show ?case
    by (simp add: mult.assoc replicate_append_same mult.commute [of 10])
qed

lemma length_digits_of: "0 < k \<Longrightarrow> n < 10 ^ k \<Longrightarrow> length (digits_of n) \<le> k"
proof (induction n arbitrary: k rule: digits_of.induct)
  case (1 n)
  show ?case
  proof (cases "n < 10")
    case True
    with "1.prems" show ?thesis
      by (simp add: digits_of.simps [of n])
  next
    case False
    from "1.prems" False obtain j where k: "k = Suc j"
      by (cases k) auto
    with "1.prems" False have "0 < j"
      by (cases j) auto
    moreover from "1.prems"(2) k have "n div 10 < 10 ^ j"
      by simp
    ultimately have "length (digits_of (n div 10)) \<le> j"
      using "1.IH" [OF False] by blast
    with k False show ?thesis
      by (simp add: digits_of.simps [of n])
  qed
qed


lemma takeWhile_same: "takeWhile (\<lambda>c. c = x) ys = replicate (length (takeWhile (\<lambda>c. c = x) ys)) x"
  by (induction ys) auto

lemma strip_zeros_split:
  "ds = strip_zeros ds @ replicate (length (takeWhile (\<lambda>c. c = CHR ''0'') (rev ds))) CHR ''0''"
proof -
  let ?P = "\<lambda>c. c = CHR ''0''"
  have "rev (rev ds) = rev (takeWhile ?P (rev ds) @ dropWhile ?P (rev ds))"
    by (simp only: takeWhile_dropWhile_id)
  then have "ds = rev (dropWhile ?P (rev ds)) @ rev (takeWhile ?P (rev ds))"
    by (simp only: rev_append rev_rev_ident)
  also have "rev (takeWhile ?P (rev ds)) = rev (replicate (length (takeWhile ?P (rev ds))) CHR ''0'')"
    using takeWhile_same [of "CHR ''0''" "rev ds"] by simp
  finally show ?thesis
    by (simp add: strip_zeros_def)
qed

lemma strip_zeros_restore:
  "strip_zeros ds @ replicate (length ds - length (strip_zeros ds)) CHR ''0'' = ds"
proof -
  let ?z = "length (takeWhile (\<lambda>c. c = CHR ''0'') (rev ds))"
  have "length ds = length (strip_zeros ds @ replicate ?z CHR ''0'')"
    using strip_zeros_split [of ds] by simp
  then have "length ds - length (strip_zeros ds) = ?z"
    by simp
  with strip_zeros_split [of ds] show ?thesis
    by simp
qed

lemma length_strip_zeros: "length (strip_zeros ds) \<le> length ds"
  by (simp add: strip_zeros_def length_dropWhile_le [of _ "rev ds", simplified])


lemma pos_toString_integer:
  assumes "0 < a" and "0 \<le> e" and "a * 10 ^ nat e < 10 ^ 21"
  shows "pos_toString a e = digits_of (a * 10 ^ nat e)"
proof -
  let ?ds = "digits_of a"
  let ?s = "strip_zeros ?ds"
  have whole: "digits_of (a * 10 ^ nat e) = ?ds @ replicate (nat e) CHR ''0''"
    using assms(1) by (rule digits_of_times_pow10)
  have "length (digits_of (a * 10 ^ nat e)) \<le> 21"
    using assms(3) by (intro length_digits_of) simp_all
  with whole have len: "length ?ds + nat e \<le> 21"
    by simp
  have k: "length ?s \<le> length ?ds"
    by (rule length_strip_zeros)
  have n: "nat (int (length ?ds) + e - int (length ?s)) = (length ?ds - length ?s) + nat e"
    using k assms(2) by simp
  have "pos_toString a e = ?s @ replicate (nat (int (length ?ds) + e - int (length ?s))) CHR ''0''"
    using k len assms(2) by (simp add: pos_toString_def Let_def)
  also have "\<dots> = (?s @ replicate (length ?ds - length ?s) CHR ''0'') @ replicate (nat e) CHR ''0''"
    by (simp only: n replicate_add append_assoc)
  also have "\<dots> = ?ds @ replicate (nat e) CHR ''0''"
    by (simp only: strip_zeros_restore)
  finally show ?thesis
    by (simp only: whole)
qed

lemma num_toString_integer:
  assumes "0 \<le> e" and "\<bar>m * 10 ^ nat e\<bar> < 10 ^ 21"
  shows "num_toString (Fin m e) = int_text (m * 10 ^ nat e)"
proof -
  consider "m = 0" | "0 < m" | "m < 0" by linarith
  then show ?thesis
  proof cases
    case 1
    then show ?thesis
      by (simp add: int_text_def digits_of.simps [of 0] digit_char_def)
  next
    case 2
    then have pos: "0 < m * 10 ^ nat e" by simp
    with assms(2) have "m * 10 ^ nat e < 10 ^ 21" by simp
    with 2 assms(1) have "pos_toString m e = digits_of (m * 10 ^ nat e)"
      by (intro pos_toString_integer) simp_all
    moreover from pos have "(m * 10 ^ nat e < 0) = False" by simp
    ultimately show ?thesis
      unfolding int_text_def using 2 by simp
  next
    case 3
    then have neg: "m * 10 ^ nat e < 0"
      by (simp add: mult_neg_pos)
    with assms(2) have "(- m) * 10 ^ nat e < 10 ^ 21" by simp
    with 3 assms(1) have "pos_toString (- m) e = digits_of ((- m) * 10 ^ nat e)"
      by (intro pos_toString_integer) simp_all
    moreover from neg have "(m * 10 ^ nat e < 0) = True" by simp
    ultimately show ?thesis
      unfolding int_text_def using 3 by simp
  qed
qed

lemma floor_half_integer: "\<lfloor>rat_of_int z + 1 / 2\<rfloor> = z"
  by linarith

lemma math_round_value:
  "\<exists>m' e'. math_round (Fin m e) = Fin m' e' \<and> 0 \<le> e' \<and>
           m' * 10 ^ nat e' = \<lfloor>value_of m e + 1 / 2\<rfloor>"
proof (cases "0 \<le> e")
  case True
  then have "value_of m e = rat_of_int (m * 10 ^ nat e)"
    by (simp add: value_of_def power_int_def)
  then have "\<lfloor>value_of m e + 1 / 2\<rfloor> = m * 10 ^ nat e"
    by (simp only: floor_half_integer)
  with True show ?thesis by simp
next
  case False
  let ?p = "(10::int) ^ nat (- e)"
  have p: "0 < ?p" by simp
  from False have "value_of m e = rat_of_int m / rat_of_int ?p"
    by (simp add: value_of_def power_int_def field_simps)
  also have "\<dots> + 1 / 2 = rat_of_int (2 * m + ?p) / rat_of_int (2 * ?p)"
    using p by (simp add: field_simps)
  finally have "\<lfloor>value_of m e + 1 / 2\<rfloor> = (2 * m + ?p) div (2 * ?p)"
    by (simp only: floor_divide_of_int_eq)
  with False show ?thesis by simp
qed

lemma int_text_no_dot: "CHR ''.'' \<notin> set (int_text n)"
proof -
  have "CHR ''.'' \<notin> set (digits_of k)" if "0 \<le> k" for k
    using digits_of_digits [OF that, of "CHR ''.''"] dot_not_digit by blast
  then show ?thesis
    by (simp add: int_text_def)
qed

lemma retainDecimal_zero_decimal:
  "num_is_zero d \<Longrightarrow>
   retainDecimal host (VNum x) (VNum d) flag = Inr (VStr (num_toString (math_round x)))"
  by (cases d)
     (simp_all add: retainDecimal_def retainDecimal_num_def default_arg_def bind_def
        zero_def align_def strict_zero_def)


text \<open>
  Claim C2 as it is stated fails on negative halves: \<open>retainDecimal(-2.5, 0, true)\<close> is
  \<open>-2\<close>, where rounding the half away from zero gives \<open>-3\<close>. Line 154 is
  \<^verbatim>\<open>Math.round(value).toString()\<close>, and \<^verbatim>\<open>Math.round\<close> takes a half to the larger
  integer.
\<close>

theorem retainDecimal_negative_half:
  "retainDecimal sample_host (VNum (Fin (- 25) (- 1))) (VNum (Fin 0 0)) (VBool True) =
     Inr (VStr ''-2'')
   \<and> int_text (round_half_away (value_of (- 25) (- 1))) = ''-3''"
proof -
  have "retainDecimal sample_host (VNum (Fin (- 25) (- 1))) (VNum (Fin 0 0)) (VBool True) =
          Inr (VStr ''-2'')"
    by code_simp
  moreover have "int_text (round_half_away (value_of (- 25) (- 1))) = ''-3''"
    by (simp add: round_half_away_def value_of_def power_int_minus int_text_def
        digits_of.simps digit_char_def)
  ultimately show ?thesis by blast
qed

text \<open>
  Claim C2, amended. For every finite value, \<open>retainDecimal(value, 0, isRemoveExtraZero)\<close>
  returns the integer nearest to the value, an exact half going to the larger integer
  (\<open>floor (value + 1/2)\<close>: away from zero for a positive value, towards zero for a
  negative one), written in decimal digits with no decimal point, as long as that
  integer is below \<open>10 ^ 21\<close> in absolute value (from there on the text is in exponent
  notation).
\<close>

theorem retainDecimal_rounds_half_up:
  assumes "num_is_zero d" and "\<bar>\<lfloor>value_of m e + 1 / 2\<rfloor>\<bar> < 10 ^ 21"
  shows "retainDecimal host (VNum (Fin m e)) (VNum d) flag =
           Inr (VStr (int_text \<lfloor>value_of m e + 1 / 2\<rfloor>))
         \<and> CHR ''.'' \<notin> set (int_text \<lfloor>value_of m e + 1 / 2\<rfloor>)"
proof -
  from math_round_value [of m e] obtain m' e' where
    r: "math_round (Fin m e) = Fin m' e'" and e': "0 \<le> e'"
    and v: "m' * 10 ^ nat e' = \<lfloor>value_of m e + 1 / 2\<rfloor>"
    by blast
  from assms(2) v have "\<bar>m' * 10 ^ nat e'\<bar> < 10 ^ 21"
    by simp
  with e' have "num_toString (Fin m' e') = int_text (m' * 10 ^ nat e')"
    by (rule num_toString_integer)
  with r v assms(1) show ?thesis
    by (simp add: retainDecimal_zero_decimal int_text_no_dot)
qed

theorem retainDecimal_rounds_half_up_witness:
  "num_is_zero (Fin 0 0)
   \<and> \<bar>\<lfloor>value_of (- 25) (- 1) + 1 / 2\<rfloor>\<bar> < 10 ^ 21
   \<and> retainDecimal sample_host (VNum (Fin (- 25) (- 1))) (VNum (Fin 0 0)) VUndefined =
       Inr (VStr (int_text \<lfloor>value_of (- 25) (- 1) + 1 / 2\<rfloor>))
   \<and> int_text \<lfloor>value_of (- 25) (- 1) + 1 / 2\<rfloor> = ''-2''"
proof -
  have z: "num_is_zero (Fin 0 0)"
    by simp
  have f: "\<lfloor>value_of (- 25) (- 1) + 1 / 2\<rfloor> = - 2"
    by (simp add: value_of_def power_int_minus)
  then have b: "\<bar>\<lfloor>value_of (- 25) (- 1) + 1 / 2\<rfloor>\<bar> < 10 ^ 21"
    by simp
  have t: "int_text \<lfloor>value_of (- 25) (- 1) + 1 / 2\<rfloor> = ''-2''"
    by (simp add: f int_text_def digits_of.simps digit_char_def)
  from retainDecimal_rounds_half_up [OF z b, of sample_host VUndefined] z b t
  show ?thesis
    by blast
qed

section \<open>Exponent notation in retainDecimal\<close>























end
